theory Spec2Isabelle
  imports Main
begin

section \<open>JavaScript values and string primitives\<close>

text \<open>
  The arguments of the storage methods and the fields of its configuration are JavaScript
  values. The code under study only ever tests them for truthiness, concatenates them to a
  string, or hands them to the version-control engine, so three shapes are enough:
  \<open>undefined\<close> (also an omitted argument), \<open>null\<close> and a string.
  Strings are sequences of 8-bit code units.
\<close>

datatype jsval = Undefined | Null | Str string

fun truthy :: "jsval \<Rightarrow> bool" where
  "truthy Undefined = False"
| "truthy Null = False"
| "truthy (Str s) = (s \<noteq> [])"

text \<open>String conversion, as performed by \<open>'origin/' + x\<close>.\<close>

fun to_str :: "jsval \<Rightarrow> string" where
  "to_str Undefined = ''undefined''"
| "to_str Null = ''null''"
| "to_str (Str s) = s"

text \<open>\<open>a || b\<close> on values (both operands already evaluated).\<close>

definition js_or :: "jsval \<Rightarrow> jsval \<Rightarrow> jsval" where
  "js_or a b = (if truthy a then a else b)"

definition nl :: char where
  "nl = CHR 0x0A"

text \<open>
  White space and line terminators removed by \<open>String.prototype.trim\<close>, among the code
  units below 256: tab, line feed, vertical tab, form feed, carriage return, space and
  no-break space.
\<close>

definition is_ws :: "char \<Rightarrow> bool" where
  "is_ws c = (c \<in> set [CHR 0x09, CHR 0x0A, CHR 0x0B, CHR 0x0C, CHR 0x0D, CHR 0x20, CHR 0xA0])"

definition js_trim :: "string \<Rightarrow> string" where
  "js_trim s = rev (dropWhile is_ws (rev (dropWhile is_ws s)))"

definition starts_with :: "string \<Rightarrow> string \<Rightarrow> bool" where
  "starts_with s p = (take (length p) s = p)"

text \<open>
  \<open>s.replace(pat, rep)\<close> with a string pattern: the first occurrence of \<open>pat\<close> in
  \<open>s\<close> is replaced, and \<open>s\<close> is returned as it is when there is none.
\<close>

fun js_replace :: "string \<Rightarrow> string \<Rightarrow> string \<Rightarrow> string" where
  "js_replace pat rep [] = (if pat = [] then rep else [])"
| "js_replace pat rep (c # cs) =
     (if starts_with (c # cs) pat then rep @ drop (length pat) (c # cs)
      else c # js_replace pat rep cs)"

text \<open>\<open>s.split(sep)\<close> for a one-character separator; the result is never empty.\<close>

fun js_split :: "char \<Rightarrow> string \<Rightarrow> string list" where
  "js_split sep [] = [[]]"
| "js_split sep (c # cs) =
     (if c = sep then [] # js_split sep cs
      else (case js_split sep cs of
              [] \<Rightarrow> [[c]]
            | x # xs \<Rightarrow> (c # x) # xs))"

text \<open>\<open>xs.filter(Boolean)\<close> on strings keeps the non-empty ones.\<close>

definition filter_Boolean :: "string list \<Rightarrow> string list" where
  "filter_Boolean xs = filter (\<lambda>s. s \<noteq> []) xs"

text \<open>\<open>xs.includes(v)\<close> for an array of strings.\<close>

fun js_includes :: "string list \<Rightarrow> jsval \<Rightarrow> bool" where
  "js_includes xs (Str s) = (s \<in> set xs)"
| "js_includes xs Undefined = False"
| "js_includes xs Null = False"

text \<open>\<open>localName\<close>: \<open>branchName.replace(/^origin\//, '')\<close>.\<close>

definition localName :: "string \<Rightarrow> string" where
  "localName branchName =
     (if starts_with branchName ''origin/'' then drop (length ''origin/'') branchName
      else branchName)"

section \<open>Failing, state-passing computations\<close>

datatype error = TypeError | Failed string

type_synonym ('a, 's) io = "'s \<Rightarrow> (error + 'a) \<times> 's"

definition io_return :: "'a \<Rightarrow> ('a, 's) io" where
  "io_return a s = (Inr a, s)"

definition io_throw :: "error \<Rightarrow> ('a, 's) io" where
  "io_throw e s = (Inl e, s)"

definition io_bind :: "('a, 's) io \<Rightarrow> ('a \<Rightarrow> ('b, 's) io) \<Rightarrow> ('b, 's) io" where
  "io_bind m f s = (case m s of (Inl e, s') \<Rightarrow> (Inl e, s') | (Inr a, s') \<Rightarrow> f a s')"

definition io_then :: "('a, 's) io \<Rightarrow> ('b, 's) io \<Rightarrow> ('b, 's) io" where
  "io_then m k = io_bind m (\<lambda>_. k)"

text \<open>\<open>try { m } catch (ex) { h ex }\<close>: the handler runs in the state the failure left.\<close>

definition io_catch :: "('a, 's) io \<Rightarrow> (error \<Rightarrow> ('a, 's) io) \<Rightarrow> ('a, 's) io" where
  "io_catch m h s = (case m s of (Inl e, s') \<Rightarrow> h e s' | (Inr a, s') \<Rightarrow> (Inr a, s'))"

definition io_gets :: "('s \<Rightarrow> 'a) \<Rightarrow> ('a, 's) io" where
  "io_gets f s = (Inr (f s), s)"

definition io_modify :: "('s \<Rightarrow> 's) \<Rightarrow> (unit, 's) io" where
  "io_modify f s = (Inr (), f s)"

definition io_of :: "error + 'a \<Rightarrow> ('a, 's) io" where
  "io_of r s = (r, s)"

section \<open>The collaborators of the storage\<close>

text \<open>
  The storage drives a version-control engine (\<open>simple-git\<close>), the file system
  (\<open>fs-extra\<close>), \<open>path\<close>, \<open>os\<close>, \<open>process.env\<close> and \<open>Date\<close>. None of them is part of
  the sources; they are the parameter \<open>E\<close> of every definition below, acting on a world
  \<open>'w\<close>. Each engine operation takes the directory its handle \<open>Git(repoDir)\<close> is bound
  to, and may fail and change the world. \<open>git_raw\<close>, \<open>git_revparse\<close> and
  \<open>git_show\<close> return what the command printed; \<open>git_branch\<close> returns the names of
  the branch summary (its field \<open>all\<close>). \<open>path_join\<close> throws on an argument that is
  not a string; \<open>process_env\<close> reads an environment variable, \<open>undefined\<close> when it
  is not set; \<open>Date_parse\<close> is \<open>None\<close> for \<open>NaN\<close>.
\<close>

datatype date = Date int | InvalidDate

record 'w engine =
  git_raw :: "string \<Rightarrow> jsval list \<Rightarrow> (string, 'w) io"
  git_fetch :: "string \<Rightarrow> jsval \<Rightarrow> jsval list \<Rightarrow> (unit, 'w) io"
  git_clone :: "string \<Rightarrow> jsval \<Rightarrow> jsval \<Rightarrow> jsval list \<Rightarrow> (unit, 'w) io"
  git_reset :: "string \<Rightarrow> jsval \<Rightarrow> (unit, 'w) io"
  git_checkout :: "string \<Rightarrow> jsval list \<Rightarrow> (unit, 'w) io"
  git_push :: "string \<Rightarrow> jsval list \<Rightarrow> (unit, 'w) io"
  git_revparse :: "string \<Rightarrow> jsval list \<Rightarrow> (string, 'w) io"
  git_branch :: "string \<Rightarrow> jsval list \<Rightarrow> (string list, 'w) io"
  git_deleteLocalBranch :: "string \<Rightarrow> jsval \<Rightarrow> (unit, 'w) io"
  git_show :: "string \<Rightarrow> jsval list \<Rightarrow> (string, 'w) io"
  git_add :: "string \<Rightarrow> jsval list \<Rightarrow> (unit, 'w) io"
  git_commit :: "string \<Rightarrow> jsval \<Rightarrow> (unit, 'w) io"
  fs_exists :: "string \<Rightarrow> (bool, 'w) io"
  fs_emptyDir :: "string \<Rightarrow> (unit, 'w) io"
  fs_writeFile :: "string \<Rightarrow> string \<Rightarrow> (unit, 'w) io"
  path_join :: "jsval list \<Rightarrow> error + string"
  process_env :: "'w \<Rightarrow> string \<Rightarrow> jsval"
  os_tmpdir :: "'w \<Rightarrow> string"
  Date_parse :: "string \<Rightarrow> int option"
  Date_now :: "'w \<Rightarrow> int"

text \<open>\<open>new Date(n)\<close> for the number \<open>Date.parse\<close> returned (\<open>None\<close> is \<open>NaN\<close>).\<close>

fun new_Date :: "int option \<Rightarrow> date" where
  "new_Date None = InvalidDate"
| "new_Date (Some t) = Date t"

section \<open>The storage\<close>

text \<open>
  The closure variables of the \<open>Storage\<close> constructor: \<open>config\<close> (initially \<open>{}\<close>),
  \<open>git\<close> (initially \<open>null\<close>; otherwise a handle bound to a directory) and \<open>repoDir\<close>
  (initially \<open>null\<close>).
\<close>

record author =
  author_name :: jsval
  author_address :: jsval

record repo_config =
  platform :: jsval
  repository :: jsval
  url :: jsval
  gitAuthor :: "author option"
  baseBranch :: jsval

record storage =
  config :: repo_config
  git :: "string option"
  repoDir :: jsval

record file_change =
  file_name :: string
  file_contents :: string

definition new_Storage :: storage where
  "new_Storage =
     \<lparr>config = \<lparr>platform = Undefined, repository = Undefined, url = Undefined,
                gitAuthor = None, baseBranch = Undefined\<rparr>,
      git = None, repoDir = Null\<rparr>"

text \<open>
  Every method is a computation on the closure variables paired with the world.
  \<open>world m\<close> runs an operation of a collaborator; \<open>git_do f\<close> is a method call
  \<open>git.f(...)\<close>, a \<open>TypeError\<close> while \<open>git\<close> is \<open>null\<close>.
\<close>

definition world :: "('a, 'w) io \<Rightarrow> ('a, storage \<times> 'w) io" where
  "world m s = (case m (snd s) of (r, w') \<Rightarrow> (r, (fst s, w')))"

definition git_do :: "(string \<Rightarrow> ('a, 'w) io) \<Rightarrow> ('a, storage \<times> 'w) io" where
  "git_do f s = (case git (fst s) of None \<Rightarrow> (Inl TypeError, s) | Some d \<Rightarrow> world (f d) s)"

definition get_baseBranch :: "(jsval, storage \<times> 'w) io" where
  "get_baseBranch = io_gets (\<lambda>s. baseBranch (config (fst s)))"

definition set_baseBranch :: "jsval \<Rightarrow> (unit, storage \<times> 'w) io" where
  "set_baseBranch v =
     io_modify (\<lambda>s. ((fst s)\<lparr>config := (config (fst s))\<lparr>baseBranch := v\<rparr>\<rparr>, snd s))"

section \<open>The methods of the storage\<close>

text \<open>
  Calls of \<open>logger\<close>, \<open>process.hrtime\<close> and \<open>convertHrtime\<close> only report; they
  are left out. \<open>cleanRepo\<close> has an empty body. Branch names, paths, commit identifiers
  and messages are JavaScript values, passed to the engine as they come; the name and the
  contents of a file to commit are strings (\<open>Buffer.from\<close> of a string is its bytes).
  \<open>mergeBranch\<close> and \<open>getCommitMessages\<close> are outside this development.
\<close>

definition cleanRepo :: "(unit, storage \<times> 'w) io" where
  "cleanRepo = io_return ()"

text \<open>The body of the \<open>try\<close> of \<open>initRepo\<close>; it ends with \<open>clone = false\<close>.\<close>

definition initRepo_fetch :: "'w engine \<Rightarrow> string \<Rightarrow> (bool, storage \<times> 'w) io" where
  "initRepo_fetch E dir =
     io_then (io_modify (\<lambda>s. ((fst s)\<lparr>git := Some dir\<rparr>, snd s)))
    (io_bind (io_gets (\<lambda>s. url (config (fst s)))) (\<lambda>u.
     io_then (git_do (\<lambda>d. git_raw E d [Str ''remote'', Str ''set-url'', Str ''origin'', u]))
    (io_then (git_do (\<lambda>d. git_fetch E d u [Str ''--depth=2'', Str ''--no-single-branch'']))
    (io_then (git_do (\<lambda>d. git_raw E d [Str ''remote'', Str ''prune'', Str ''origin'']))
    (io_return False)))))"

definition initRepo_clone :: "'w engine \<Rightarrow> string \<Rightarrow> (unit, storage \<times> 'w) io" where
  "initRepo_clone E dir =
     io_then (world (fs_emptyDir E dir))
    (io_then (io_modify (\<lambda>s. ((fst s)\<lparr>git := Some dir\<rparr>, snd s)))
    (io_bind (io_gets (\<lambda>s. url (config (fst s)))) (\<lambda>u.
     git_do (\<lambda>d. git_clone E d u (Str ''.'') [Str ''--depth=2'', Str ''--no-single-branch'']))))"

definition initRepo_author :: "'w engine \<Rightarrow> (unit, storage \<times> 'w) io" where
  "initRepo_author E =
     io_bind (io_gets (\<lambda>s. gitAuthor (config (fst s)))) (\<lambda>a.
       case a of
         None \<Rightarrow> io_return ()
       | Some au \<Rightarrow>
           io_then (git_do (\<lambda>d. git_raw E d [Str ''config'', Str ''user.name'', author_name au]))
          (io_then (git_do (\<lambda>d. git_raw E d [Str ''config'', Str ''user.email'', author_address au]))
          (io_then (git_do (\<lambda>d. git_raw E d [Str ''config'', Str ''commit.gpgsign'', Str ''false'']))
          (io_return ()))))"

text \<open>
  The last statement of \<open>initRepo\<close>: the right operand of \<open>||\<close> is only evaluated, and
  the engine only asked, when \<open>config.baseBranch\<close> is falsy.
\<close>

definition initRepo_baseBranch :: "'w engine \<Rightarrow> (unit, storage \<times> 'w) io" where
  "initRepo_baseBranch E =
     io_bind get_baseBranch (\<lambda>b.
       if truthy b then set_baseBranch b
       else io_bind (git_do (\<lambda>d. git_raw E d [Str ''symbolic-ref'', Str ''refs/remotes/origin/HEAD'']))
              (\<lambda>out. set_baseBranch (Str (js_trim (js_replace ''refs/remotes/origin/'' [] out)))))"

definition initRepo :: "'w engine \<Rightarrow> repo_config \<Rightarrow> (unit, storage \<times> 'w) io" where
  "initRepo E args =
     io_then cleanRepo
    (io_then (io_modify (\<lambda>s. ((fst s)\<lparr>config := args\<rparr>, snd s)))
    (io_bind (io_gets (\<lambda>s. js_or (process_env E (snd s) ''RENOVATE_TMPDIR'')
                                  (Str (os_tmpdir E (snd s))))) (\<lambda>tmp.
     io_bind (io_gets (\<lambda>s. config (fst s))) (\<lambda>c.
     io_bind (io_of (path_join E [tmp, platform c, repository c])) (\<lambda>dir.
     io_then (io_modify (\<lambda>s. ((fst s)\<lparr>repoDir := Str dir\<rparr>, snd s)))
    (io_bind (io_of (path_join E [Str dir, Str ''.git/HEAD''])) (\<lambda>gitHead.
     io_bind (io_gets (\<lambda>s. process_env E (snd s) ''NODE_ENV'')) (\<lambda>node_env.
     io_bind (if node_env \<noteq> Str ''test'' then world (fs_exists E gitHead)
              else io_return False) (\<lambda>refresh.
     io_bind (if refresh then io_catch (initRepo_fetch E dir) (\<lambda>err. io_return True)
              else io_return True) (\<lambda>clone.
     io_then (if clone then initRepo_clone E dir else io_return ())
    (io_then (initRepo_author E)
    (initRepo_baseBranch E))))))))))))"

definition createBranch :: "'w engine \<Rightarrow> jsval \<Rightarrow> jsval \<Rightarrow> (unit, storage \<times> 'w) io" where
  "createBranch E branchName sha =
     io_then (git_do (\<lambda>d. git_reset E d (Str ''hard'')))
    (io_then (git_do (\<lambda>d. git_checkout E d [Str ''-B'', branchName, sha]))
    (git_do (\<lambda>d. git_push E d [Str ''origin'', branchName, Str ''--force''])))"

definition getBranchCommit :: "'w engine \<Rightarrow> jsval \<Rightarrow> (string, storage \<times> 'w) io" where
  "getBranchCommit E branchName =
     io_bind (git_do (\<lambda>d. git_revparse E d [Str (''origin/'' @ to_str branchName)]))
       (\<lambda>res. io_return (js_trim res))"

definition setBaseBranch :: "jsval \<Rightarrow> (unit, storage \<times> 'w) io" where
  "setBaseBranch branchName =
     (if truthy branchName then set_baseBranch branchName else io_return ())"

definition branchExists :: "'w engine \<Rightarrow> jsval \<Rightarrow> (bool, storage \<times> 'w) io" where
  "branchExists E branchName =
     io_catch
       (io_then (git_do (\<lambda>d. git_raw E d
                   [Str ''show-branch'', Str (''origin/'' @ to_str branchName)]))
          (io_return True))
       (\<lambda>ex. io_return False)"

definition getFileList :: "'w engine \<Rightarrow> jsval \<Rightarrow> (string list, storage \<times> 'w) io" where
  "getFileList E branchName =
     io_bind get_baseBranch (\<lambda>base.
     let branch = js_or branchName base in
     io_bind (branchExists E branch) (\<lambda>exists.
       if \<not> exists then io_return []
       else io_bind (git_do (\<lambda>d. git_raw E d
                       [Str ''ls-tree'', Str ''-r'', Str ''--name-only'',
                        Str (''origin/'' @ to_str branch)]))
              (\<lambda>files. io_return (filter_Boolean (js_split nl files)))))"

definition getAllRenovateBranches ::
  "'w engine \<Rightarrow> string \<Rightarrow> (string list, storage \<times> 'w) io" where
  "getAllRenovateBranches E branchPrefix =
     io_bind (git_do (\<lambda>d. git_branch E d [Str ''--remotes'', Str ''--verbose'']))
       (\<lambda>branches. io_return (filter (\<lambda>branchName. starts_with branchName branchPrefix)
                                 (map localName branches)))"

definition isBranchStale :: "'w engine \<Rightarrow> jsval \<Rightarrow> (bool, storage \<times> 'w) io" where
  "isBranchStale E branchName =
     io_bind get_baseBranch (\<lambda>base.
     io_bind (git_do (\<lambda>d. git_branch E d
                 [Str ''--remotes'', Str ''--verbose'', Str ''--contains'', base]))
       (\<lambda>branches. io_return (\<not> js_includes (map localName branches) branchName)))"

definition deleteBranch :: "'w engine \<Rightarrow> jsval \<Rightarrow> (unit, storage \<times> 'w) io" where
  "deleteBranch E branchName =
     io_then (git_do (\<lambda>d. git_raw E d
                 [Str ''push'', Str ''--delete'', Str ''origin'', branchName]))
       (io_catch (git_do (\<lambda>d. git_deleteLocalBranch E d branchName))
          (\<lambda>ex. io_return ()))"

definition getBranchLastCommitTime :: "'w engine \<Rightarrow> jsval \<Rightarrow> (date, storage \<times> 'w) io" where
  "getBranchLastCommitTime E branchName =
     io_catch
       (io_bind (git_do (\<lambda>d. git_show E d
                   [Str ''-s'', Str ''--format=%ai'', Str (''origin/'' @ to_str branchName)]))
          (\<lambda>time. io_return (new_Date (Date_parse E time))))
       (\<lambda>ex. io_gets (\<lambda>s. Date (Date_now E (snd s))))"



text \<open>One turn of the loop of \<open>commitFilesToBranch\<close>, and the loop.\<close>

definition writeFile :: "'w engine \<Rightarrow> file_change \<Rightarrow> (unit, storage \<times> 'w) io" where
  "writeFile E f =
     io_bind (io_gets (\<lambda>s. repoDir (fst s))) (\<lambda>dir.
     io_bind (io_of (path_join E [dir, Str (file_name f)])) (\<lambda>p.
     world (fs_writeFile E p (file_contents f))))"

fun writeFiles :: "'w engine \<Rightarrow> file_change list \<Rightarrow> (unit, storage \<times> 'w) io" where
  "writeFiles E [] = io_return ()"
| "writeFiles E (f # fs) = io_then (writeFile E f) (writeFiles E fs)"

text \<open>
  The default \<open>parentBranch = config.baseBranch\<close> is taken when the argument is
  \<open>undefined\<close>, and only then.
\<close>

definition commitFilesToBranch ::
  "'w engine \<Rightarrow> jsval \<Rightarrow> file_change list \<Rightarrow> jsval \<Rightarrow> jsval \<Rightarrow> (unit, storage \<times> 'w) io" where
  "commitFilesToBranch E branchName files message parentBranch =
     io_bind (if parentBranch = Undefined then get_baseBranch
              else io_return parentBranch) (\<lambda>parent.
     io_then (git_do (\<lambda>d. git_reset E d (Str ''hard'')))
    (io_then (git_do (\<lambda>d. git_checkout E d
                 [Str ''-B'', branchName, Str (''origin/'' @ to_str parent)]))
    (io_then (writeFiles E files)
    (io_then (git_do (\<lambda>d. git_add E d (map (\<lambda>f. Str (file_name f)) files)))
    (io_then (git_do (\<lambda>d. git_commit E d message))
    (git_do (\<lambda>d. git_push E d [Str ''origin'', branchName, Str ''--force''])))))))"

section \<open>A reference world for the collaborators\<close>

text \<open>
  Modelled from the spec: the version-control engine and the file system are not part of
  the sources. The spec describes them as a working copy with local branches and
  remote-tracking refs \<open>origin/<name>\<close> over a remote repository, whose queries resolve
  through the remote-tracking ref. The world below is that description: commits by
  identifier, each with its parents and its tree of files; the branches of the remote; and one
  working copy with its local branches, remote-tracking refs, current branch, staged tree
  and files on disk.
\<close>

record commit =
  parents :: "string list"
  tree :: "(string \<times> string) list"
  subject :: string
  author_date :: string

record world =
  fs_files :: "(string \<times> string) list"
  copy_dir :: "string option"
  objects :: "(string \<times> commit) list"
  heads :: "(string \<times> string) list"
  tracking :: "(string \<times> string) list"
  origin_HEAD :: "string option"
  HEAD :: "string option"
  index :: "(string \<times> string) list"
  remote_url :: string
  remote_heads :: "(string \<times> string) list"
  remote_HEAD :: "string option"
  env_vars :: "(string \<times> string) list"
  tmp_dir :: string
  clock :: int
  clock_ai :: string

text \<open>
  Modelled from the spec: tables (refs, trees, files) are association lists with one entry
  for a key after it is set.
\<close>

definition put :: "'k \<Rightarrow> 'v \<Rightarrow> ('k \<times> 'v) list \<Rightarrow> ('k \<times> 'v) list" where
  "put k v al = (k, v) # filter (\<lambda>p. fst p \<noteq> k) al"

definition del :: "'k \<Rightarrow> ('k \<times> 'v) list \<Rightarrow> ('k \<times> 'v) list" where
  "del k al = filter (\<lambda>p. fst p \<noteq> k) al"

text \<open>Modelled from the spec: the arguments of an engine command are strings.\<close>

fun strs :: "jsval list \<Rightarrow> string list option" where
  "strs [] = Some []"
| "strs (Str s # vs) = map_option ((#) s) (strs vs)"
| "strs (Undefined # vs) = None"
| "strs (Null # vs) = None"

definition failed :: "string \<Rightarrow> world \<Rightarrow> (error + 'a) \<times> world" where
  "failed what w = (Inl (Failed what), w)"

text \<open>
  Modelled from the spec: a revision \<open>origin/<name>\<close> is the remote-tracking ref of
  \<open>name\<close>; any other revision is a commit identifier or else a local branch. It
  resolves when the commit it names is in the working copy.
\<close>

definition rev_parse :: "world \<Rightarrow> string \<Rightarrow> string option" where
  "rev_parse w r =
     (case (if starts_with r ''origin/'' then map_of (tracking w) (drop (length ''origin/'') r)
            else if map_of (objects w) r \<noteq> None then Some r
            else map_of (heads w) r) of
        None \<Rightarrow> None
      | Some sha \<Rightarrow> (if map_of (objects w) sha = None then None else Some sha))"

definition rev_commit :: "world \<Rightarrow> string \<Rightarrow> commit option" where
  "rev_commit w r = (case rev_parse w r of None \<Rightarrow> None | Some sha \<Rightarrow> map_of (objects w) sha)"

text \<open>
  Modelled from the spec: a tip ``contains'' a commit when the commit is the tip or one
  of its ancestors; the search is bounded by the number of commits.
\<close>

fun reach :: "(string \<times> commit) list \<Rightarrow> nat \<Rightarrow> string \<Rightarrow> string \<Rightarrow> bool" where
  "reach objs 0 s k = (s = k)"
| "reach objs (Suc n) s k =
     (s = k \<or> (case map_of objs s of
                  None \<Rightarrow> False
                | Some c \<Rightarrow> list_ex (\<lambda>p. reach objs n p k) (parents c)))"

definition contains_commit :: "(string \<times> commit) list \<Rightarrow> string \<Rightarrow> string \<Rightarrow> bool" where
  "contains_commit objs s k = reach objs (length objs) s k"

text \<open>Modelled from the spec: a new commit gets an identifier that no commit has yet.\<close>

definition fresh_id :: "(string \<times> commit) list \<Rightarrow> string" where
  "fresh_id objs = replicate (Suc (foldr (\<lambda>p m. max (length (fst p)) m) objs 0)) (CHR ''0'')"

text \<open>Modelled from the spec: the file of path \<open>p\<close> in the working copy at \<open>d\<close>.\<close>

definition in_dir :: "string \<Rightarrow> string \<Rightarrow> string" where
  "in_dir d p = d @ ''/'' @ p"

text \<open>
  Modelled from the spec: checking a tree out writes its files and removes the files of
  the tree that was checked out before; files that were never tracked stay.
\<close>

definition checkout_files ::
  "string \<Rightarrow> (string \<times> string) list \<Rightarrow> (string \<times> string) list \<Rightarrow> (string \<times> string) list
     \<Rightarrow> (string \<times> string) list" where
  "checkout_files d old new fs =
     map (\<lambda>p. (in_dir d (fst p), snd p)) new @
     filter (\<lambda>q. fst q \<notin> set (map (\<lambda>p. in_dir d (fst p)) (old @ new))) fs"

definition head_commit :: "world \<Rightarrow> commit option" where
  "head_commit w =
     (case HEAD w of
        None \<Rightarrow> None
      | Some b \<Rightarrow> (case map_of (heads w) b of
                    None \<Rightarrow> None
                  | Some sha \<Rightarrow> map_of (objects w) sha))"

text \<open>Modelled from the spec: \<open>reset(mode)\<close>, a hard reset to the current commit.\<close>

definition m_reset :: "string \<Rightarrow> jsval \<Rightarrow> (unit, world) io" where
  "m_reset d mode w =
     (if copy_dir w = Some d \<and> mode = Str ''hard'' then
        (case head_commit w of
           None \<Rightarrow> failed ''reset'' w
         | Some c \<Rightarrow> (Inr (), w\<lparr>index := tree c,
                                fs_files := checkout_files d (index w) (tree c) (fs_files w)\<rparr>))
      else failed ''reset'' w)"

text \<open>
  Modelled from the spec: \<open>checkout(['-B', name, start])\<close> force-creates or moves the
  local branch \<open>name\<close> to \<open>start\<close> and makes it the current branch.
\<close>

definition m_checkout :: "string \<Rightarrow> jsval list \<Rightarrow> (unit, world) io" where
  "m_checkout d args w =
     (case strs args of
        Some [opt, b, start] \<Rightarrow>
          (if copy_dir w = Some d \<and> opt = ''-B'' then
             (case rev_parse w start of
                None \<Rightarrow> failed ''checkout'' w
              | Some sha \<Rightarrow>
                  (case map_of (objects w) sha of
                     None \<Rightarrow> failed ''checkout'' w
                   | Some c \<Rightarrow>
                       (Inr (), w\<lparr>heads := put b sha (heads w), HEAD := Some b, index := tree c,
                                  fs_files := checkout_files d (index w) (tree c) (fs_files w)\<rparr>)))
           else failed ''checkout'' w)
      | _ \<Rightarrow> failed ''checkout'' w)"

text \<open>
  Modelled from the spec: \<open>push(['origin', name, '--force'])\<close> sets the branch of the
  remote, and its remote-tracking ref, to the tip of the local branch.
\<close>

definition m_push :: "string \<Rightarrow> jsval list \<Rightarrow> (unit, world) io" where
  "m_push d args w =
     (case strs args of
        Some [r, b, opt] \<Rightarrow>
          (if copy_dir w = Some d \<and> r = ''origin'' \<and> opt = ''--force'' then
             (case map_of (heads w) b of
                None \<Rightarrow> failed ''push'' w
              | Some sha \<Rightarrow> (Inr (), w\<lparr>remote_heads := put b sha (remote_heads w),
                                       tracking := put b sha (tracking w)\<rparr>))
           else failed ''push'' w)
      | _ \<Rightarrow> failed ''push'' w)"

text \<open>Modelled from the spec: \<open>revparse(ref)\<close> prints the commit identifier and a newline.\<close>

definition m_revparse :: "string \<Rightarrow> jsval list \<Rightarrow> (string, world) io" where
  "m_revparse d args w =
     (case strs args of
        Some [r] \<Rightarrow>
          (if copy_dir w = Some d then
             (case rev_parse w r of
                None \<Rightarrow> failed ''rev-parse'' w
              | Some sha \<Rightarrow> (Inr (sha @ [nl]), w))
           else failed ''rev-parse'' w)
      | _ \<Rightarrow> failed ''rev-parse'' w)"

text \<open>
  Modelled from the spec: \<open>branch(options)\<close> lists the remote-tracking branches, with
  \<open>--contains\<close> those whose tip contains the given commit.
\<close>

definition m_branch :: "string \<Rightarrow> jsval list \<Rightarrow> (string list, world) io" where
  "m_branch d args w =
     (case strs args of
        Some [a, b] \<Rightarrow>
          (if copy_dir w = Some d \<and> a = ''--remotes'' \<and> b = ''--verbose'' then
             (Inr (map (\<lambda>p. ''origin/'' @ fst p) (tracking w)), w)
           else failed ''branch'' w)
      | Some [a, b, c, base] \<Rightarrow>
          (if copy_dir w = Some d \<and> a = ''--remotes'' \<and> b = ''--verbose'' \<and> c = ''--contains'' then
             (case rev_parse w base of
                None \<Rightarrow> failed ''branch'' w
              | Some k \<Rightarrow>
                  (Inr (map (\<lambda>p. ''origin/'' @ fst p)
                          (filter (\<lambda>p. contains_commit (objects w) (snd p) k) (tracking w))), w))
           else failed ''branch'' w)
      | _ \<Rightarrow> failed ''branch'' w)"

text \<open>
  Modelled from the spec: \<open>deleteLocalBranch(name)\<close> fails when there is no such local
  branch or it is the current one.
\<close>

definition m_deleteLocalBranch :: "string \<Rightarrow> jsval \<Rightarrow> (unit, world) io" where
  "m_deleteLocalBranch d v w =
     (case v of
        Str b \<Rightarrow>
          (if copy_dir w = Some d \<and> map_of (heads w) b \<noteq> None \<and> HEAD w \<noteq> Some b then
             (Inr (), w\<lparr>heads := del b (heads w)\<rparr>)
           else failed ''branch -d'' w)
      | _ \<Rightarrow> failed ''branch -d'' w)"

text \<open>
  Modelled from the spec: \<open>show\<close> prints the author date of a commit
  (\<open>-s --format=%ai\<close>) or the content of \<open>ref:path\<close>.
\<close>

definition m_show :: "string \<Rightarrow> jsval list \<Rightarrow> (string, world) io" where
  "m_show d args w =
     (case strs args of
        Some [spec] \<Rightarrow>
          (let r = takeWhile (\<lambda>c. c \<noteq> CHR '':'') spec; p = drop (Suc (length r)) spec in
           if copy_dir w = Some d \<and> length r < length spec then
             (case rev_commit w r of
                None \<Rightarrow> failed ''show'' w
              | Some c \<Rightarrow> (case map_of (tree c) p of
                            None \<Rightarrow> failed ''show'' w
                          | Some content \<Rightarrow> (Inr content, w)))
           else failed ''show'' w)
      | Some [a, b, r] \<Rightarrow>
          (if copy_dir w = Some d \<and> a = ''-s'' \<and> b = ''--format=%ai'' then
             (case rev_commit w r of
                None \<Rightarrow> failed ''show'' w
              | Some c \<Rightarrow> (Inr (author_date c @ [nl]), w))
           else failed ''show'' w)
      | _ \<Rightarrow> failed ''show'' w)"

text \<open>Modelled from the spec: \<open>add(paths)\<close> stages the files on disk at these paths.\<close>

fun add_paths ::
  "string \<Rightarrow> (string \<times> string) list \<Rightarrow> string list \<Rightarrow> (string \<times> string) list
     \<Rightarrow> (string \<times> string) list option" where
  "add_paths d fs [] idx = Some idx"
| "add_paths d fs (n # ns) idx =
     (case map_of fs (in_dir d n) of
        None \<Rightarrow> None
      | Some c \<Rightarrow> add_paths d fs ns (put n c idx))"

definition m_add :: "string \<Rightarrow> jsval list \<Rightarrow> (unit, world) io" where
  "m_add d args w =
     (case strs args of
        None \<Rightarrow> failed ''add'' w
      | Some ns \<Rightarrow>
          (if copy_dir w = Some d then
             (case add_paths d (fs_files w) ns (index w) of
                None \<Rightarrow> failed ''add'' w
              | Some idx \<Rightarrow> (Inr (), w\<lparr>index := idx\<rparr>))
           else failed ''add'' w))"

text \<open>
  Modelled from the spec: \<open>commit(message)\<close> records the staged tree as a new commit on
  the current branch, its parent the former tip.
\<close>

definition m_commit :: "string \<Rightarrow> jsval \<Rightarrow> (unit, world) io" where
  "m_commit d v w =
     (case v of
        Str m \<Rightarrow>
          (if copy_dir w = Some d then
             (case HEAD w of
                None \<Rightarrow> failed ''commit'' w
              | Some b \<Rightarrow>
                  (case map_of (heads w) b of
                     None \<Rightarrow> failed ''commit'' w
                   | Some p \<Rightarrow>
                       (Inr (), w\<lparr>objects :=
                                    (fresh_id (objects w),
                                     \<lparr>parents = [p], tree = index w, subject = m,
                                      author_date = clock_ai w\<rparr>) # objects w,
                                  heads := put b (fresh_id (objects w)) (heads w)\<rparr>)))
           else failed ''commit'' w)
      | _ \<Rightarrow> failed ''commit'' w)"

text \<open>
  Modelled from the spec: \<open>raw(argv)\<close> for the plumbing commands the storage issues:
  \<open>show-branch\<close>, \<open>symbolic-ref\<close>, \<open>ls-tree\<close>, \<open>push --delete\<close>, \<open>remote\<close> and
  \<open>config\<close>.
\<close>

definition m_raw :: "string \<Rightarrow> jsval list \<Rightarrow> (string, world) io" where
  "m_raw d args w =
     (if copy_dir w \<noteq> Some d then failed ''raw'' w
      else case strs args of
        Some [a, r] \<Rightarrow>
          (if a = ''show-branch'' then
             (case rev_commit w r of
                None \<Rightarrow> failed ''show-branch'' w
              | Some c \<Rightarrow> (Inr (''['' @ r @ ''] '' @ subject c @ [nl]), w))
           else if a = ''symbolic-ref'' \<and> r = ''refs/remotes/origin/HEAD'' then
             (case origin_HEAD w of
                None \<Rightarrow> failed ''symbolic-ref'' w
              | Some h \<Rightarrow> (Inr (''refs/remotes/origin/'' @ h @ [nl]), w))
           else failed ''raw'' w)
      | Some [a, b, c] \<Rightarrow>
          (if a = ''remote'' \<and> b = ''prune'' \<and> c = ''origin'' then
             (Inr [], w\<lparr>tracking :=
                          filter (\<lambda>p. map_of (remote_heads w) (fst p) \<noteq> None) (tracking w)\<rparr>)
           else if a = ''config'' then (Inr [], w)
           else failed ''raw'' w)
      | Some [a, b, c, r] \<Rightarrow>
          (if a = ''ls-tree'' \<and> b = ''-r'' \<and> c = ''--name-only'' then
             (case rev_commit w r of
                None \<Rightarrow> failed ''ls-tree'' w
              | Some k \<Rightarrow> (Inr (concat (map (\<lambda>p. fst p @ [nl]) (tree k))), w))
           else if a = ''push'' \<and> b = ''--delete'' \<and> c = ''origin'' then
             (if map_of (remote_heads w) r = None then failed ''push --delete'' w
              else (Inr [], w\<lparr>remote_heads := del r (remote_heads w),
                              tracking := del r (tracking w)\<rparr>))
           else if a = ''remote'' \<and> b = ''set-url'' \<and> c = ''origin'' then (Inr [], w)
           else failed ''raw'' w)
      | _ \<Rightarrow> failed ''raw'' w)"

text \<open>
  Modelled from the spec: \<open>fetch(url, options)\<close> brings the remote-tracking refs up to
  the branches of the remote.
\<close>

definition m_fetch :: "string \<Rightarrow> jsval \<Rightarrow> jsval list \<Rightarrow> (unit, world) io" where
  "m_fetch d u opts w =
     (if copy_dir w = Some d \<and> u = Str (remote_url w) then
        (Inr (), w\<lparr>tracking := foldr (\<lambda>p. put (fst p) (snd p)) (remote_heads w) (tracking w)\<rparr>)
      else failed ''fetch'' w)"

text \<open>
  Modelled from the spec: \<open>clone(url, '.', options)\<close> into an empty directory gives a
  working copy with a remote-tracking ref for every branch of the remote, on the default
  branch of the remote.
\<close>

definition m_clone :: "string \<Rightarrow> jsval \<Rightarrow> jsval \<Rightarrow> jsval list \<Rightarrow> (unit, world) io" where
  "m_clone d u dest opts w =
     (if u = Str (remote_url w) \<and> dest = Str ''.'' \<and> copy_dir w \<noteq> Some d \<and>
         \<not> list_ex (\<lambda>p. starts_with (fst p) (in_dir d [])) (fs_files w) then
        (let w1 = w\<lparr>copy_dir := Some d, heads := [], tracking := remote_heads w,
                    origin_HEAD := remote_HEAD w, HEAD := None, index := []\<rparr> in
         case remote_HEAD w of
           None \<Rightarrow> (Inr (), w1)
         | Some b \<Rightarrow>
             (case map_of (remote_heads w) b of
                None \<Rightarrow> (Inr (), w1)
              | Some sha \<Rightarrow>
                  (case map_of (objects w) sha of
                     None \<Rightarrow> (Inr (), w1)
                   | Some c \<Rightarrow>
                       (Inr (), w1\<lparr>heads := [(b, sha)], HEAD := Some b, index := tree c,
                                   fs_files := checkout_files d [] (tree c) (fs_files w)\<rparr>))))
      else failed ''clone'' w)"

text \<open>
  Modelled from the spec: the file system, \<open>path.join\<close> and the environment. Files are
  kept by their full path; \<open>path.join\<close> puts a slash between its non-empty segments and
  does not normalise them further.
\<close>

definition m_exists :: "string \<Rightarrow> (bool, world) io" where
  "m_exists p w =
     (Inr (map_of (fs_files w) p \<noteq> None \<or>
           (case copy_dir w of None \<Rightarrow> False | Some d \<Rightarrow> p = in_dir d ''.git/HEAD'')), w)"

definition m_emptyDir :: "string \<Rightarrow> (unit, world) io" where
  "m_emptyDir d w =
     (Inr (), w\<lparr>fs_files := filter (\<lambda>p. \<not> starts_with (fst p) (in_dir d [])) (fs_files w),
                copy_dir := (if copy_dir w = Some d then None else copy_dir w)\<rparr>)"

definition m_writeFile :: "string \<Rightarrow> string \<Rightarrow> (unit, world) io" where
  "m_writeFile p c w = (Inr (), w\<lparr>fs_files := put p c (fs_files w)\<rparr>)"

fun join_slash :: "string list \<Rightarrow> string" where
  "join_slash [] = ''.''"
| "join_slash [s] = s"
| "join_slash (s # t # ss) = s @ ''/'' @ join_slash (t # ss)"

definition m_join :: "jsval list \<Rightarrow> error + string" where
  "m_join vs =
     (case strs vs of
        None \<Rightarrow> Inl TypeError
      | Some ss \<Rightarrow> Inr (join_slash (filter (\<lambda>s. s \<noteq> []) ss)))"

definition m_env :: "world \<Rightarrow> string \<Rightarrow> jsval" where
  "m_env w k = (case map_of (env_vars w) k of None \<Rightarrow> Undefined | Some v \<Rightarrow> Str v)"

text \<open>
  Modelled from the spec: the collaborators over the reference world. \<open>Date.parse\<close>
  stays a parameter.
\<close>

definition git_model :: "(string \<Rightarrow> int option) \<Rightarrow> world engine" where
  "git_model parse =
     \<lparr>git_raw = m_raw, git_fetch = m_fetch, git_clone = m_clone, git_reset = m_reset,
      git_checkout = m_checkout, git_push = m_push, git_revparse = m_revparse,
      git_branch = m_branch, git_deleteLocalBranch = m_deleteLocalBranch, git_show = m_show,
      git_add = m_add, git_commit = m_commit, fs_exists = m_exists, fs_emptyDir = m_emptyDir,
      fs_writeFile = m_writeFile, path_join = m_join, process_env = m_env,
      os_tmpdir = tmp_dir, Date_parse = parse, Date_now = clock\<rparr>"

text \<open>Modelled from the spec: the file tree at the tip of a branch of the remote.\<close>

definition remote_tree :: "world \<Rightarrow> string \<Rightarrow> (string \<times> string) list option" where
  "remote_tree w b =
     (case map_of (remote_heads w) b of
        None \<Rightarrow> None
      | Some sha \<Rightarrow> map_option tree (map_of (objects w) sha))"

text \<open>Modelled from the spec: a commit identifier is a non-empty string of hex digits.\<close>

definition is_sha :: "string \<Rightarrow> bool" where
  "is_sha s = (s \<noteq> [] \<and> list_all (\<lambda>c. c \<in> set ''0123456789abcdef'') s)"

text \<open>
  Modelled from the spec: the files on disk after the loop of \<open>commitFilesToBranch\<close> has
  written \<open>fs\<close>, from the files \<open>F\<close> before it.
\<close>

definition written_files ::
  "storage \<Rightarrow> file_change list \<Rightarrow> (string \<times> string) list \<Rightarrow> (string \<times> string) list" where
  "written_files st fs F =
     foldl (\<lambda>F f. case m_join [repoDir st, Str (file_name f)] of
                     Inl e \<Rightarrow> F
                   | Inr p \<Rightarrow> put p (file_contents f) F) F fs"

text \<open>
  Modelled from the spec: in a complete history every parent of a commit is itself a commit
  of the store.
\<close>

definition closed_store :: "(string \<times> commit) list \<Rightarrow> bool" where
  "closed_store objs =
     list_all (\<lambda>p. list_all (\<lambda>q. map_of objs q \<noteq> None) (parents (snd p))) objs"

section \<open>A concrete repository\<close>

text \<open>
  A remote with two commits and the branches \<open>master\<close> (the default) and
  \<open>feature/x\<close>; \<open>demo_session\<close> is the storage and the world once \<open>initRepo\<close> has
  cloned it.
\<close>

definition demo_parse :: "string \<Rightarrow> int option" where
  "demo_parse s =
     (if s = ''2018-10-02 11:15:00 +0200'' @ [nl] then Some 1538471700000 else None)"

definition demo_objects :: "(string \<times> commit) list" where
  "demo_objects =
     [(''a1'', \<lparr>parents = [], tree = [(''package.json'', ''{}''), (''README.md'', ''hello'')],
               subject = ''initial'', author_date = ''2018-10-01 09:00:00 +0200''\<rparr>),
      (''b2'', \<lparr>parents = [''a1''],
               tree = [(''package.json'', ''{ }''), (''README.md'', ''hello'')],
               subject = ''second'', author_date = ''2018-10-02 11:15:00 +0200''\<rparr>)]"

definition demo_remote :: world where
  "demo_remote =
     \<lparr>fs_files = [], copy_dir = None, objects = demo_objects,
      heads = [], tracking = [], origin_HEAD = None, HEAD = None, index = [],
      remote_url = ''https://example.com/some/repo.git'',
      remote_heads = [(''master'', ''b2''), (''feature/x'', ''a1'')],
      remote_HEAD = Some ''master'',
      env_vars = [(''NODE_ENV'', ''test'')], tmp_dir = ''/tmp'',
      clock = 1538500000000, clock_ai = ''2018-10-02 19:06:40 +0200''\<rparr>"

definition demo_args :: repo_config where
  "demo_args =
     \<lparr>platform = Str ''github'', repository = Str ''some/repo'',
      url = Str ''https://example.com/some/repo.git'', gitAuthor = None,
      baseBranch = Undefined\<rparr>"

definition demo_dir :: string where
  "demo_dir = ''/tmp/github/some/repo''"

definition demo_storage :: storage where
  "demo_storage =
     \<lparr>config = demo_args\<lparr>baseBranch := Str ''master''\<rparr>,
      git = Some demo_dir, repoDir = Str demo_dir\<rparr>"

definition demo_copy :: world where
  "demo_copy =
     demo_remote
       \<lparr>fs_files := [(''/tmp/github/some/repo/package.json'', ''{ }''),
                     (''/tmp/github/some/repo/README.md'', ''hello'')],
        copy_dir := Some demo_dir,
        heads := [(''master'', ''b2'')],
        tracking := [(''master'', ''b2''), (''feature/x'', ''a1'')],
        origin_HEAD := Some ''master'', HEAD := Some ''master'',
        index := [(''package.json'', ''{ }''), (''README.md'', ''hello'')]\<rparr>"

definition demo_session :: "storage \<times> world" where
  "demo_session = (demo_storage, demo_copy)"

text \<open>
  The same session after further calls: a branch created at the tip of \<open>master\<close>; a
  commit of one file to a branch, made once and made twice; and a branch deleted.
\<close>

definition demo_files :: "file_change list" where
  "demo_files = [\<lparr>file_name = ''package.json'', file_contents = ''new''\<rparr>]"

definition demo_created :: "storage \<times> world" where
  "demo_created =
     snd (createBranch (git_model demo_parse) (Str ''renovate/a'') (Str ''b2'') demo_session)"

definition demo_once :: "storage \<times> world" where
  "demo_once =
     snd (commitFilesToBranch (git_model demo_parse) (Str ''renovate/a'') demo_files
            (Str ''Update package.json'') Undefined demo_session)"

definition demo_twice :: "storage \<times> world" where
  "demo_twice =
     snd (commitFilesToBranch (git_model demo_parse) (Str ''renovate/a'') demo_files
            (Str ''Update package.json'') Undefined demo_once)"

definition demo_deleted :: "storage \<times> world" where
  "demo_deleted = snd (deleteBranch (git_model demo_parse) (Str ''feature/x'') demo_session)"

text \<open>
  After \<open>renovate/a\<close> was created at the tip of \<open>master\<close>, somebody else pushes a third
  commit to \<open>master\<close> on the remote; in a later run, outside the test environment,
  \<open>initRepo\<close> finds the working copy and refreshes it by a fetch.
\<close>

definition demo_moved :: "storage \<times> world" where
  "demo_moved =
     (fst demo_created,
      (snd demo_created)
        \<lparr>objects := (''c3'', \<lparr>parents = [''b2''],
                              tree = [(''package.json'', ''{ }''), (''README.md'', ''hello again'')],
                              subject = ''third'',
                              author_date = ''2018-10-03 08:00:00 +0200''\<rparr>)
                     # objects (snd demo_created),
         remote_heads := put ''master'' ''c3'' (remote_heads (snd demo_created)),
         env_vars := []\<rparr>)"

definition demo_refreshed :: "storage \<times> world" where
  "demo_refreshed = snd (initRepo (git_model demo_parse) demo_args demo_moved)"

text \<open>
  The first session with \<open>feature/x\<close>, a branch of the remote with no local branch, as
  its base branch, and a branch created at the tip of \<open>feature/x\<close>.
\<close>

definition demo_feature_base :: "storage \<times> world" where
  "demo_feature_base =
     snd (createBranch (git_model demo_parse) (Str ''renovate/b'') (Str ''a1'')
            (snd (setBaseBranch (Str ''feature/x'') demo_session)))"

section \<open>Basic facts\<close>

lemmas io_defs = io_return_def io_throw_def io_bind_def io_then_def io_catch_def io_gets_def
  io_modify_def io_of_def world_def git_do_def get_baseBranch_def set_baseBranch_def

lemma io_bindE:
  assumes "io_bind m k s = (Inr r, s')"
  obtains a s1 where "m s = (Inr a, s1)" and "k a s1 = (Inr r, s')"
  using assms by (auto simp: io_bind_def split: prod.splits sum.splits)

lemma io_thenE:
  assumes "io_then m k s = (Inr r, s')"
  obtains a s1 where "m s = (Inr a, s1)" and "k s1 = (Inr r, s')"
  using assms by (auto simp: io_then_def io_bind_def split: prod.splits sum.splits)

text \<open>A call of a collaborator leaves the closure variables alone.\<close>

lemma world_storage: "fst (snd (world m s)) = fst s"
  by (simp add: world_def split: prod.splits)

lemma git_do_storage: "fst (snd (git_do f s)) = fst s"
  by (simp add: git_do_def world_storage split: option.splits)

lemma git_model_simps [simp]:
  "git_raw (git_model parse) = m_raw"
  "git_fetch (git_model parse) = m_fetch"
  "git_clone (git_model parse) = m_clone"
  "git_reset (git_model parse) = m_reset"
  "git_checkout (git_model parse) = m_checkout"
  "git_push (git_model parse) = m_push"
  "git_revparse (git_model parse) = m_revparse"
  "git_branch (git_model parse) = m_branch"
  "git_deleteLocalBranch (git_model parse) = m_deleteLocalBranch"
  "git_show (git_model parse) = m_show"
  "git_add (git_model parse) = m_add"
  "git_commit (git_model parse) = m_commit"
  "fs_exists (git_model parse) = m_exists"
  "fs_emptyDir (git_model parse) = m_emptyDir"
  "fs_writeFile (git_model parse) = m_writeFile"
  "path_join (git_model parse) = m_join"
  "process_env (git_model parse) = m_env"
  "os_tmpdir (git_model parse) = tmp_dir"
  "Date_parse (git_model parse) = parse"
  "Date_now (git_model parse) = clock"
  by (simp_all add: git_model_def)

lemma map_of_put: "map_of (put k v al) = (map_of al)(k \<mapsto> v)"
proof -
  have "map_of (filter (\<lambda>p. fst p \<noteq> k) al) x = map_of al x" if "x \<noteq> k" for x
    using that by (induction al) auto
  then show ?thesis by (auto simp: put_def fun_eq_iff)
qed

lemma map_of_del: "map_of (del k al) = (map_of al)(k := None)"
  unfolding del_def by (induction al) (auto simp: fun_eq_iff)

lemma starts_with_append [simp]: "starts_with (p @ s) p"
  by (simp add: starts_with_def)

lemma localName_origin: "localName (''origin/'' @ n) = n"
  using starts_with_append [of "''origin/''" n]
  by (simp add: localName_def del: starts_with_append)

lemmas localName_origin_cons [simp] = localName_origin [simplified]

lemma rev_parse_origin:
  "rev_parse w (''origin/'' @ b) =
     (case map_of (tracking w) b of
        None \<Rightarrow> None
      | Some sha \<Rightarrow> (if map_of (objects w) sha = None then None else Some sha))"
  using starts_with_append [of "''origin/''" b]
  by (simp add: rev_parse_def del: starts_with_append)

lemmas rev_parse_origin_cons = rev_parse_origin [simplified]

lemma js_replace_prefix: "js_replace p [] (p @ rest) = rest"
proof (cases "p @ rest")
  case Nil
  then show ?thesis by simp
next
  case (Cons c cs)
  have sw: "starts_with (c # cs) p"
    unfolding Cons [symmetric] by (simp add: starts_with_def)
  have "js_replace p [] (c # cs) = drop (length p) (c # cs)"
    using sw by simp
  also have "\<dots> = rest"
    unfolding Cons [symmetric] by simp
  finally show ?thesis
    unfolding Cons .
qed

subsection \<open>The engine commands the storage issues, on the reference world\<close>

lemma m_raw_show_branch:
  "m_raw d [Str ''show-branch'', Str r] w =
     (if copy_dir w = Some d then
        (case rev_commit w r of
           None \<Rightarrow> failed ''show-branch'' w
         | Some c \<Rightarrow> (Inr (''['' @ r @ ''] '' @ subject c @ [nl]), w))
      else failed ''raw'' w)"
  by (simp add: m_raw_def)

lemma m_raw_push_delete:
  "m_raw d [Str ''push'', Str ''--delete'', Str ''origin'', Str b] w =
     (if copy_dir w = Some d then
        (if map_of (remote_heads w) b = None then failed ''push --delete'' w
         else (Inr [], w\<lparr>remote_heads := del b (remote_heads w),
                         tracking := del b (tracking w)\<rparr>))
      else failed ''raw'' w)"
  by (simp add: m_raw_def)

lemma branchExists_model:
  "branchExists (git_model parse) b (st, w) =
     (Inr (case git st of
             None \<Rightarrow> False
           | Some d \<Rightarrow> copy_dir w = Some d \<and> rev_commit w (''origin/'' @ to_str b) \<noteq> None),
      (st, w))"
  unfolding branchExists_def io_defs
  by (simp add: m_raw_show_branch failed_def split: option.splits)

subsection \<open>The concrete repository\<close>

lemma demo_initRepo:
  "initRepo (git_model demo_parse) demo_args (new_Storage, demo_remote) = (Inr (), demo_session)"
  by (simp add: initRepo_def cleanRepo_def initRepo_clone_def initRepo_author_def
      initRepo_baseBranch_def io_defs new_Storage_def demo_remote_def demo_args_def
      demo_session_def demo_storage_def demo_copy_def demo_dir_def demo_objects_def
      m_join_def m_env_def m_emptyDir_def m_clone_def m_raw_def js_or_def
      in_dir_def starts_with_def checkout_files_def js_trim_def is_ws_def nl_def)

lemma demo_session_simps [simp]:
  "git (fst demo_session) = Some demo_dir"
  "repoDir (fst demo_session) = Str demo_dir"
  "baseBranch (config (fst demo_session)) = Str ''master''"
  "copy_dir (snd demo_session) = Some demo_dir"
  "objects (snd demo_session) = demo_objects"
  "tracking (snd demo_session) = [(''master'', ''b2''), (''feature/x'', ''a1'')]"
  "remote_heads (snd demo_session) = [(''master'', ''b2''), (''feature/x'', ''a1'')]"
  "heads (snd demo_session) = [(''master'', ''b2'')]"
  "HEAD (snd demo_session) = Some ''master''"
  "clock (snd demo_session) = 1538500000000"
  by (simp_all add: demo_session_def demo_storage_def demo_copy_def demo_remote_def)

lemma demo_rev_commit:
  "rev_commit (snd demo_session) ''origin/master'' = map_of demo_objects ''b2''"
  "rev_commit (snd demo_session) ''origin/feature/x'' = map_of demo_objects ''a1''"
  "rev_commit (snd demo_session) ''origin/gone'' = None"
  by (simp_all add: rev_commit_def rev_parse_def starts_with_def demo_objects_def)

section \<open>Setting the base branch\<close>

text \<open>
  Claim C10. \<open>setBaseBranch\<close> with a falsy argument (\<open>undefined\<close>, \<open>null\<close> or the empty
  string) changes nothing; with a truthy branch name it replaces the base branch; and in
  either case it returns, and every other field of the configuration, the engine handle, the
  working directory and the world stay as they were.
\<close>

theorem setBaseBranch_frame:
  "setBaseBranch Undefined s = (Inr (), s) \<and>
   setBaseBranch Null s = (Inr (), s) \<and>
   setBaseBranch (Str []) s = (Inr (), s) \<and>
   (\<not> truthy v \<longrightarrow> setBaseBranch v s = (Inr (), s)) \<and>
   (truthy v \<longrightarrow> baseBranch (config (fst (snd (setBaseBranch v s)))) = v) \<and>
   fst (setBaseBranch v s) = Inr () \<and>
   platform (config (fst (snd (setBaseBranch v s)))) = platform (config (fst s)) \<and>
   repository (config (fst (snd (setBaseBranch v s)))) = repository (config (fst s)) \<and>
   url (config (fst (snd (setBaseBranch v s)))) = url (config (fst s)) \<and>
   gitAuthor (config (fst (snd (setBaseBranch v s)))) = gitAuthor (config (fst s)) \<and>
   git (fst (snd (setBaseBranch v s))) = git (fst s) \<and>
   repoDir (fst (snd (setBaseBranch v s))) = repoDir (fst s) \<and>
   snd (snd (setBaseBranch v s)) = snd s"
  by (simp add: setBaseBranch_def io_defs)

theorem setBaseBranch_frame_witness:
  "truthy (Str ''develop'') \<and>
   baseBranch (config (fst (snd (setBaseBranch (Str ''develop'') demo_session)))) = Str ''develop'' \<and>
   url (config (fst (snd (setBaseBranch (Str ''develop'') demo_session))))
     = Str ''https://example.com/some/repo.git'' \<and>
   \<not> truthy Null \<and>
   setBaseBranch Null demo_session = (Inr (), demo_session)"
  using setBaseBranch_frame [of demo_session "Str ''develop''"]
    setBaseBranch_frame [of demo_session Null]
  by (simp add: demo_session_def demo_storage_def demo_args_def)

section \<open>Queries that turn a failure into a value\<close>

text \<open>
  Claim C4. \<open>branchExists(b)\<close> asks the engine to resolve \<open>origin/b\<close>
  (\<open>show-branch\<close>). It returns true when the engine resolves it and false on every
  failure of that call, also when there is no engine handle; it never throws.
\<close>

theorem branchExists_total:
  "(\<forall>out s'. git_do (\<lambda>d. git_raw E d [Str ''show-branch'', Str (''origin/'' @ to_str b)]) s
                = (Inr out, s')
       \<longrightarrow> branchExists E b s = (Inr True, s')) \<and>
   (\<forall>e s'. git_do (\<lambda>d. git_raw E d [Str ''show-branch'', Str (''origin/'' @ to_str b)]) s
                = (Inl e, s')
       \<longrightarrow> branchExists E b s = (Inr False, s')) \<and>
   (\<exists>r. fst (branchExists E b s) = Inr r)"
  by (auto simp: branchExists_def io_defs split: prod.splits sum.splits option.splits)

theorem branchExists_total_witness:
  "branchExists (git_model demo_parse) (Str ''master'') demo_session = (Inr True, demo_session) \<and>
   branchExists (git_model demo_parse) (Str ''gone'') demo_session = (Inr False, demo_session)"
proof -
  have yes: "git_do (\<lambda>d. git_raw (git_model demo_parse) d
                [Str ''show-branch'', Str (''origin/'' @ to_str (Str ''master''))]) demo_session
               = (Inr (''[origin/master] second'' @ [nl]), demo_session)"
    by (simp add: git_do_def world_def m_raw_show_branch demo_rev_commit demo_objects_def)
  have no: "git_do (\<lambda>d. git_raw (git_model demo_parse) d
                [Str ''show-branch'', Str (''origin/'' @ to_str (Str ''gone''))]) demo_session
               = (Inl (Failed ''show-branch''), demo_session)"
    by (simp add: git_do_def world_def m_raw_show_branch demo_rev_commit failed_def)
  from yes no
    branchExists_total [of "git_model demo_parse" "Str ''master''" demo_session]
    branchExists_total [of "git_model demo_parse" "Str ''gone''" demo_session]
  show ?thesis by blast
qed

text \<open>
  Claim C8. \<open>getBranchLastCommitTime(b)\<close> asks the engine for the author date of the tip
  of \<open>origin/b\<close> (\<open>show -s --format=%ai\<close>) and returns it as a date; on every failure of
  that call it returns the current time; it never throws.
\<close>

theorem getBranchLastCommitTime_total:
  "(\<forall>out s'. git_do (\<lambda>d. git_show E d
                  [Str ''-s'', Str ''--format=%ai'', Str (''origin/'' @ to_str b)]) s
                = (Inr out, s')
       \<longrightarrow> getBranchLastCommitTime E b s = (Inr (new_Date (Date_parse E out)), s')) \<and>
   (\<forall>e s'. git_do (\<lambda>d. git_show E d
                  [Str ''-s'', Str ''--format=%ai'', Str (''origin/'' @ to_str b)]) s
                = (Inl e, s')
       \<longrightarrow> getBranchLastCommitTime E b s = (Inr (Date (Date_now E (snd s'))), s')) \<and>
   (\<exists>t. fst (getBranchLastCommitTime E b s) = Inr t)"
  by (auto simp: getBranchLastCommitTime_def io_defs split: prod.splits sum.splits option.splits)

theorem getBranchLastCommitTime_total_witness:
  "getBranchLastCommitTime (git_model demo_parse) (Str ''master'') demo_session
     = (Inr (Date 1538471700000), demo_session) \<and>
   getBranchLastCommitTime (git_model demo_parse) (Str ''gone'') demo_session
     = (Inr (Date 1538500000000), demo_session)"
proof -
  have yes: "git_do (\<lambda>d. git_show (git_model demo_parse) d
                [Str ''-s'', Str ''--format=%ai'', Str (''origin/'' @ to_str (Str ''master''))])
               demo_session
               = (Inr (''2018-10-02 11:15:00 +0200'' @ [nl]), demo_session)"
    by (simp add: git_do_def world_def m_show_def demo_rev_commit demo_objects_def)
  have no: "git_do (\<lambda>d. git_show (git_model demo_parse) d
                [Str ''-s'', Str ''--format=%ai'', Str (''origin/'' @ to_str (Str ''gone''))])
               demo_session
               = (Inl (Failed ''show''), demo_session)"
    by (simp add: git_do_def world_def m_show_def demo_rev_commit failed_def)
  have p: "new_Date (Date_parse (git_model demo_parse) (''2018-10-02 11:15:00 +0200'' @ [nl]))
             = Date 1538471700000"
    by (simp add: demo_parse_def)
  from yes no p
    getBranchLastCommitTime_total [of "git_model demo_parse" "Str ''master''" demo_session]
    getBranchLastCommitTime_total [of "git_model demo_parse" "Str ''gone''" demo_session]
  show ?thesis by (simp del: new_Date.simps)
qed

section \<open>The base branch after initialisation\<close>

text \<open>Everything \<open>initRepo\<close> does after \<open>config = { ...args }\<close> leaves \<open>config\<close> alone,
  up to its last statement.\<close>

lemma io_bind_config:
  assumes "\<And>s. config (fst (snd (m s))) = config (fst s)"
    and "\<And>a s. config (fst (snd (k a s))) = config (fst s)"
  shows "config (fst (snd (io_bind m k s))) = config (fst s)"
proof -
  obtain r s1 where ms: "m s = (r, s1)" by (cases "m s")
  with assms(1) [of s] have "config (fst s1) = config (fst s)" by simp
  with ms assms(2) show ?thesis
    by (cases r) (simp_all add: io_bind_def)
qed

lemma io_then_config:
  assumes "\<And>s. config (fst (snd (m s))) = config (fst s)"
    and "\<And>s. config (fst (snd (k s))) = config (fst s)"
  shows "config (fst (snd (io_then m k s))) = config (fst s)"
  unfolding io_then_def using assms by (intro io_bind_config)

lemma io_catch_config:
  assumes "\<And>s. config (fst (snd (m s))) = config (fst s)"
    and "\<And>e s. config (fst (snd (h e s))) = config (fst s)"
  shows "config (fst (snd (io_catch m h s))) = config (fst s)"
proof -
  obtain r s1 where ms: "m s = (r, s1)" by (cases "m s")
  with assms(1) [of s] have "config (fst s1) = config (fst s)" by simp
  with ms assms(2) show ?thesis
    by (cases r) (simp_all add: io_catch_def)
qed

lemma initRepo_fetch_config:
  "config (fst (snd (initRepo_fetch E dir s))) = config (fst s)"
  unfolding initRepo_fetch_def
  by (intro io_bind_config io_then_config)
     (simp_all add: git_do_storage io_modify_def io_gets_def io_return_def)

lemma initRepo_clone_config:
  "config (fst (snd (initRepo_clone E dir s))) = config (fst s)"
  unfolding initRepo_clone_def
  by (intro io_bind_config io_then_config)
     (simp_all add: git_do_storage world_storage io_modify_def io_gets_def io_return_def)

lemma initRepo_author_config:
  "config (fst (snd (initRepo_author E s))) = config (fst s)"
  unfolding initRepo_author_def
  by (intro io_bind_config io_then_config)
     (simp_all add: git_do_storage io_modify_def io_gets_def io_return_def io_bind_config
        io_then_config split: option.splits)

lemma initRepo_author_configD:
  "initRepo_author E s = (r, s') \<Longrightarrow> config (fst s') = config (fst s)"
  using initRepo_author_config [of E s] by simp

lemma initRepo_clone_configD:
  "(if c then initRepo_clone E d else io_return ()) s = (r, s')
     \<Longrightarrow> config (fst s') = config (fst s)"
  using initRepo_clone_config [of E d s] by (auto simp: io_return_def split: if_splits)

lemma initRepo_fetch_configD:
  "(if c then io_catch (initRepo_fetch E d) (\<lambda>err. io_return True) else io_return True) s
     = (r, s')
     \<Longrightarrow> config (fst s') = config (fst s)"
  using io_catch_config [of "initRepo_fetch E d" "\<lambda>err. io_return True" s,
      OF initRepo_fetch_config]
  by (auto simp: io_return_def split: if_splits)

lemma initRepo_exists_configD:
  "(if c then world f else io_return a) s = (r, s') \<Longrightarrow> config (fst s') = config (fst s)"
  using world_storage [of f s] by (auto simp: io_return_def split: if_splits)

lemma initRepo_reaches_baseBranch:
  assumes "initRepo E args s = (Inr (), s')"
  shows "\<exists>s1. config (fst s1) = args \<and> initRepo_baseBranch E s1 = (Inr (), s')"
  using assms unfolding initRepo_def
  apply (elim io_bindE io_thenE)
  apply (frule initRepo_author_configD)
  apply (frule initRepo_clone_configD)
  apply (frule initRepo_fetch_configD)
  apply (frule initRepo_exists_configD)
  apply (auto simp: io_gets_def io_modify_def io_of_def cleanRepo_def io_return_def)
  done

lemma initRepo_baseBranch_result:
  assumes "initRepo_baseBranch E s1 = (Inr (), s')"
  shows "(truthy (baseBranch (config (fst s1))) \<longrightarrow> s' = s1) \<and>
         (\<not> truthy (baseBranch (config (fst s1))) \<longrightarrow>
            (\<exists>d out. git (fst s1) = Some d \<and>
               git_raw E d [Str ''symbolic-ref'', Str ''refs/remotes/origin/HEAD''] (snd s1)
                 = (Inr out, snd s') \<and>
               fst s' = (fst s1)\<lparr>config := (config (fst s1))
                 \<lparr>baseBranch := Str (js_trim (js_replace ''refs/remotes/origin/'' [] out))\<rparr>\<rparr>))"
  using assms unfolding initRepo_baseBranch_def io_defs
  by (auto split: if_splits option.splits prod.splits sum.splits)

text \<open>
  Claim C9. After \<open>initRepo\<close> has completed, the base branch of the session is a string,
  not \<open>undefined\<close> or \<open>null\<close>, and the rest of the configuration is the one given. A
  truthy base branch of the configuration is kept. Otherwise the engine was asked for
  \<open>symbolic-ref refs/remotes/origin/HEAD\<close>, and the base branch is its output with the
  first \<open>refs/remotes/origin/\<close> removed and trimmed: the name behind that prefix when the
  output starts with it.
\<close>

theorem initRepo_baseBranch_resolved:
  assumes "initRepo E args s = (Inr (), s')"
  shows "(\<exists>name. baseBranch (config (fst s')) = Str name) \<and>
         config (fst s') = args\<lparr>baseBranch := baseBranch (config (fst s'))\<rparr> \<and>
         (truthy (baseBranch args) \<longrightarrow> baseBranch (config (fst s')) = baseBranch args) \<and>
         (\<not> truthy (baseBranch args) \<longrightarrow>
            (\<exists>d w1 out. git (fst s') = Some d \<and>
               git_raw E d [Str ''symbolic-ref'', Str ''refs/remotes/origin/HEAD''] w1
                 = (Inr out, snd s') \<and>
               baseBranch (config (fst s')) =
                 Str (js_trim (js_replace ''refs/remotes/origin/'' [] out)) \<and>
               (\<forall>name. out = ''refs/remotes/origin/'' @ name \<longrightarrow>
                  baseBranch (config (fst s')) = Str (js_trim name))))"
proof -
  from initRepo_reaches_baseBranch [OF assms] obtain s1
    where c: "config (fst s1) = args" and b: "initRepo_baseBranch E s1 = (Inr (), s')"
    by blast
  show ?thesis
  proof (cases "truthy (baseBranch args)")
    case True
    with initRepo_baseBranch_result [OF b] c have "s' = s1" by simp
    with True c show ?thesis by (cases "baseBranch args") auto
  next
    case False
    with initRepo_baseBranch_result [OF b] c obtain d out where
      g: "git (fst s1) = Some d"
      and r: "git_raw E d [Str ''symbolic-ref'', Str ''refs/remotes/origin/HEAD''] (snd s1)
                = (Inr out, snd s')"
      and f: "fst s' = (fst s1)\<lparr>config := (config (fst s1))
                 \<lparr>baseBranch := Str (js_trim (js_replace ''refs/remotes/origin/'' [] out))\<rparr>\<rparr>"
      by auto
    have base: "baseBranch (config (fst s')) =
                  Str (js_trim (js_replace ''refs/remotes/origin/'' [] out))"
      using f by simp
    have strip: "baseBranch (config (fst s')) = Str (js_trim name)"
      if "out = ''refs/remotes/origin/'' @ name" for name
      unfolding base that by (simp only: js_replace_prefix)
    have cfg: "config (fst s') = args\<lparr>baseBranch := baseBranch (config (fst s'))\<rparr>"
      using f c by simp
    have g': "git (fst s') = Some d"
      using f g by simp
    from False base strip cfg g' r show ?thesis
      by blast
  qed
qed

lemma demo_initRepo_given:
  "initRepo (git_model demo_parse) (demo_args\<lparr>baseBranch := Str ''develop''\<rparr>)
     (new_Storage, demo_remote)
   = (Inr (), (demo_storage\<lparr>config := demo_args\<lparr>baseBranch := Str ''develop''\<rparr>\<rparr>, demo_copy))"
  by (simp add: initRepo_def cleanRepo_def initRepo_clone_def initRepo_author_def
      initRepo_baseBranch_def io_defs new_Storage_def demo_remote_def demo_args_def
      demo_storage_def demo_copy_def demo_dir_def demo_objects_def
      m_join_def m_env_def m_emptyDir_def m_clone_def js_or_def
      in_dir_def starts_with_def checkout_files_def)

theorem initRepo_baseBranch_resolved_witness:
  "initRepo (git_model demo_parse) demo_args (new_Storage, demo_remote) = (Inr (), demo_session) \<and>
   \<not> truthy (baseBranch demo_args) \<and>
   baseBranch (config (fst demo_session)) = Str ''master'' \<and>
   (\<exists>d w1 out. git (fst demo_session) = Some d \<and>
      git_raw (git_model demo_parse) d [Str ''symbolic-ref'', Str ''refs/remotes/origin/HEAD''] w1
        = (Inr out, snd demo_session) \<and>
      Str ''master'' = Str (js_trim (js_replace ''refs/remotes/origin/'' [] out))) \<and>
   truthy (baseBranch (demo_args\<lparr>baseBranch := Str ''develop''\<rparr>)) \<and>
   (\<exists>name. baseBranch (config (fst (snd (initRepo (git_model demo_parse)
       (demo_args\<lparr>baseBranch := Str ''develop''\<rparr>) (new_Storage, demo_remote))))) = Str name)"
proof -
  have u: "\<not> truthy (baseBranch demo_args)"
    by (simp add: demo_args_def)
  have m: "baseBranch (config (fst demo_session)) = Str ''master''"
    by simp
  from initRepo_baseBranch_resolved [OF demo_initRepo] u m
  have a: "\<exists>d w1 out. git (fst demo_session) = Some d \<and>
      git_raw (git_model demo_parse) d [Str ''symbolic-ref'', Str ''refs/remotes/origin/HEAD''] w1
        = (Inr out, snd demo_session) \<and>
      Str ''master'' = Str (js_trim (js_replace ''refs/remotes/origin/'' [] out))"
    by (simp del: git_model_simps js_replace.simps demo_session_simps) blast
  have t: "truthy (baseBranch (demo_args\<lparr>baseBranch := Str ''develop''\<rparr>))"
    by simp
  from initRepo_baseBranch_resolved [OF demo_initRepo_given]
  have b: "\<exists>name. baseBranch (config (fst (snd (initRepo (git_model demo_parse)
       (demo_args\<lparr>baseBranch := Str ''develop''\<rparr>) (new_Storage, demo_remote))))) = Str name"
    by (simp add: demo_initRepo_given)
  from demo_initRepo u m a t b show ?thesis by blast
qed

section \<open>The reference world, method by method\<close>

lemma branchExists_model_s:
  "branchExists (git_model parse) b s =
     (Inr (case git (fst s) of
             None \<Rightarrow> False
           | Some d \<Rightarrow> copy_dir (snd s) = Some d \<and>
                       rev_commit (snd s) (''origin/'' @ to_str b) \<noteq> None), s)"
  by (cases s) (simp add: branchExists_model cong: option.case_cong)

lemma rev_parse_cong:
  "tracking w' = tracking w \<Longrightarrow> objects w' = objects w \<Longrightarrow> heads w' = heads w
     \<Longrightarrow> rev_parse w' r = rev_parse w r"
  by (simp add: rev_parse_def cong: option.case_cong if_cong)

lemma m_reset_hard:
  "m_reset d (Str ''hard'') w =
     (if copy_dir w = Some d then
        (case head_commit w of
           None \<Rightarrow> failed ''reset'' w
         | Some c \<Rightarrow> (Inr (), w\<lparr>index := tree c,
                                fs_files := checkout_files d (index w) (tree c) (fs_files w)\<rparr>))
      else failed ''reset'' w)"
  by (simp add: m_reset_def)

lemma m_checkout_B:
  "m_checkout d [Str ''-B'', Str b, Str start] w =
     (if copy_dir w = Some d then
        (case rev_parse w start of
           None \<Rightarrow> failed ''checkout'' w
         | Some sha \<Rightarrow>
             (case map_of (objects w) sha of
                None \<Rightarrow> failed ''checkout'' w
              | Some c \<Rightarrow>
                  (Inr (), w\<lparr>heads := put b sha (heads w), HEAD := Some b, index := tree c,
                             fs_files := checkout_files d (index w) (tree c) (fs_files w)\<rparr>)))
      else failed ''checkout'' w)"
  by (simp add: m_checkout_def)

lemma m_push_force:
  "m_push d [Str ''origin'', Str b, Str ''--force''] w =
     (if copy_dir w = Some d then
        (case map_of (heads w) b of
           None \<Rightarrow> failed ''push'' w
         | Some sha \<Rightarrow> (Inr (), w\<lparr>remote_heads := put b sha (remote_heads w),
                                  tracking := put b sha (tracking w)\<rparr>))
      else failed ''push'' w)"
  by (simp add: m_push_def)

lemma m_revparse_one:
  "m_revparse d [Str r] w =
     (if copy_dir w = Some d then
        (case rev_parse w r of
           None \<Rightarrow> failed ''rev-parse'' w
         | Some sha \<Rightarrow> (Inr (sha @ [nl]), w))
      else failed ''rev-parse'' w)"
  by (simp add: m_revparse_def)

lemma m_branch_contains:
  "m_branch d [Str ''--remotes'', Str ''--verbose'', Str ''--contains'', Str base] w =
     (if copy_dir w = Some d then
        (case rev_parse w base of
           None \<Rightarrow> failed ''branch'' w
         | Some k \<Rightarrow>
             (Inr (map (\<lambda>p. ''origin/'' @ fst p)
                     (filter (\<lambda>p. contains_commit (objects w) (snd p) k) (tracking w))), w))
      else failed ''branch'' w)"
  by (simp add: m_branch_def)

lemma createBranch_model:
  assumes "createBranch (git_model parse) (Str b) (Str x) s = (Inr (), s')"
  obtains d k c where "git (fst s) = Some d" "copy_dir (snd s) = Some d"
    "rev_parse (snd s) x = Some k" "map_of (objects (snd s)) k = Some c"
    "fst s' = fst s" "copy_dir (snd s') = Some d" "objects (snd s') = objects (snd s)"
    "tracking (snd s') = put b k (tracking (snd s))"
    "heads (snd s') = put b k (heads (snd s))"
    "remote_heads (snd s') = put b k (remote_heads (snd s))"
proof -
  obtain st w where s: "s = (st, w)" by (cases s)
  from assms obtain d where d: "git st = Some d"
    unfolding s createBranch_def io_defs by (auto split: option.splits)
  from assms d have cd: "copy_dir w = Some d"
    unfolding s createBranch_def io_defs
    by (auto simp: m_reset_hard failed_def split: if_splits)
  from assms d cd obtain c0 where hc: "head_commit w = Some c0"
    unfolding s createBranch_def io_defs
    by (auto simp: m_reset_hard failed_def split: option.splits)
  define w1 where "w1 = w\<lparr>index := tree c0,
                          fs_files := checkout_files d (index w) (tree c0) (fs_files w)\<rparr>"
  have r1: "m_reset d (Str ''hard'') w = (Inr (), w1)"
    by (simp add: m_reset_hard cd hc w1_def)
  have rp: "rev_parse w1 x = rev_parse w x"
    by (rule rev_parse_cong) (simp_all add: w1_def)
  have w1: "copy_dir w1 = Some d" "objects w1 = objects w"
    by (simp_all add: w1_def cd)
  from assms d r1 obtain k c where k: "rev_parse w x = Some k" and c: "map_of (objects w) k = Some c"
    unfolding s createBranch_def io_defs
    by (auto simp: m_checkout_B failed_def rp w1 split: option.splits)
  define w2 where "w2 = w1\<lparr>heads := put b k (heads w1), HEAD := Some b, index := tree c,
                           fs_files := checkout_files d (index w1) (tree c) (fs_files w1)\<rparr>"
  have r2: "m_checkout d [Str ''-B'', Str b, Str x] w1 = (Inr (), w2)"
    by (simp add: m_checkout_B rp k c w1 w2_def)
  have r3: "m_push d [Str ''origin'', Str b, Str ''--force''] w2 =
              (Inr (), w2\<lparr>remote_heads := put b k (remote_heads w2),
                          tracking := put b k (tracking w2)\<rparr>)"
    by (simp add: m_push_force w2_def w1 map_of_put)
  from assms d r1 r2 r3
  have s': "s' = (st, w2\<lparr>remote_heads := put b k (remote_heads w2),
                         tracking := put b k (tracking w2)\<rparr>)"
    unfolding s createBranch_def io_defs by simp
  show ?thesis
    by (rule that [of d k c]) (simp_all add: s s' d cd k c w2_def w1_def)
qed

lemma deleteBranch_cases:
  "(\<forall>e s1. git_do (\<lambda>d. git_raw E d [Str ''push'', Str ''--delete'', Str ''origin'', b]) s = (Inl e, s1)
       \<longrightarrow> deleteBranch E b s = (Inl e, s1)) \<and>
   (\<forall>out s1. git_do (\<lambda>d. git_raw E d [Str ''push'', Str ''--delete'', Str ''origin'', b]) s = (Inr out, s1)
       \<longrightarrow> deleteBranch E b s = (Inr (), snd (git_do (\<lambda>d. git_deleteLocalBranch E d b) s1)))"
  by (auto simp: deleteBranch_def io_defs split: prod.splits sum.splits option.splits)

lemma deleteBranch_then_branchExists:
  assumes "deleteBranch (git_model parse) (Str b) s = (Inr (), s')"
  shows "branchExists (git_model parse) (Str b) s' = (Inr False, s')"
proof -
  obtain st w where s: "s = (st, w)" by (cases s)
  define w1 where "w1 = w\<lparr>remote_heads := del b (remote_heads w), tracking := del b (tracking w)\<rparr>"
  from assms have s': "s' = (st, w1) \<or> s' = (st, w1\<lparr>heads := del b (heads w1)\<rparr>)"
    unfolding s deleteBranch_def io_defs w1_def
    by (auto simp: m_raw_push_delete m_deleteLocalBranch_def failed_def
        split: option.splits if_splits)
  have "rev_commit (snd s') (''origin/'' @ b) = None"
    using s' by (auto simp: rev_commit_def rev_parse_origin_cons w1_def map_of_del)
  then show ?thesis
    by (simp add: branchExists_model_s split: option.splits)
qed

lemma hex_not_ws: "c \<in> set ''0123456789abcdef'' \<Longrightarrow> \<not> is_ws c"
  by (auto simp: is_ws_def)

lemma is_sha_chars:
  assumes "is_sha x"
  shows "x \<noteq> []" and "\<forall>c \<in> set x. c \<in> set ''0123456789abcdef''"
  using assms unfolding is_sha_def list_all_iff by blast+

lemma js_trim_sha:
  assumes "is_sha x"
  shows "js_trim (x @ [nl]) = x"
proof -
  from is_sha_chars [OF assms] hex_not_ws have ne: "x \<noteq> []" and hex: "\<forall>c \<in> set x. \<not> is_ws c"
    by blast+
  from ne hex have h: "\<not> is_ws (hd x)" and l: "\<not> is_ws (last x)" by simp_all
  from ne h have a: "dropWhile is_ws (x @ [nl]) = x @ [nl]"
    by (cases x) simp_all
  have w: "is_ws nl" by (simp add: is_ws_def nl_def)
  have b: "dropWhile is_ws (rev (x @ [nl])) = rev x"
    using ne l w by (cases x rule: rev_cases) simp_all
  show ?thesis
    unfolding js_trim_def a b by simp
qed

lemma is_sha_not_origin:
  assumes "is_sha x"
  shows "\<not> starts_with x ''origin/''"
proof
  assume "starts_with x ''origin/''"
  then have "take (length ''origin/'') x = ''origin/''" by (simp only: starts_with_def)
  then have "hd x = CHR ''o''" by (cases x) simp_all
  moreover from is_sha_chars [OF assms] have "hd x \<in> set ''0123456789abcdef''" by simp
  ultimately show False by simp
qed

lemma is_sha_rev_parse:
  assumes "is_sha x" "map_of (objects w) x = Some c"
  shows "rev_parse w x = Some x"
  using is_sha_not_origin [OF assms(1)] assms(2) by (simp add: rev_parse_def)

lemma getBranchCommit_model:
  assumes "git (fst s) = Some d" "copy_dir (snd s) = Some d"
    "rev_parse (snd s) (''origin/'' @ b) = Some k"
  shows "getBranchCommit (git_model parse) (Str b) s = (Inr (js_trim (k @ [nl])), s)"
  using assms unfolding getBranchCommit_def io_defs
  by (cases s) (simp add: m_revparse_one)

lemma isBranchStale_cases:
  "(\<forall>all s'. git_do (\<lambda>d. git_branch E d [Str ''--remotes'', Str ''--verbose'', Str ''--contains'',
                   baseBranch (config (fst s))]) s = (Inr all, s')
       \<longrightarrow> isBranchStale E (Str b) s = (Inr (b \<notin> localName ` set all), s')) \<and>
   (\<forall>e s'. git_do (\<lambda>d. git_branch E d [Str ''--remotes'', Str ''--verbose'', Str ''--contains'',
                   baseBranch (config (fst s))]) s = (Inl e, s')
       \<longrightarrow> isBranchStale E (Str b) s = (Inl e, s'))"
  by (auto simp: isBranchStale_def io_defs split: prod.splits sum.splits option.splits)

lemma reach_refl: "reach objs n k k"
  by (cases n) simp_all

lemma isBranchStale_model:
  assumes "git (fst s) = Some d" "copy_dir (snd s) = Some d"
    "baseBranch (config (fst s)) = Str base" "rev_parse (snd s) base = Some k"
  shows "isBranchStale (git_model parse) (Str b) s =
           (Inr (\<not> (\<exists>t. (b, t) \<in> set (tracking (snd s)) \<and>
                         contains_commit (objects (snd s)) t k)), s)"
proof -
  have br: "git_do (\<lambda>d. git_branch (git_model parse) d
              [Str ''--remotes'', Str ''--verbose'', Str ''--contains'',
               baseBranch (config (fst s))]) s
            = (Inr (map (\<lambda>p. ''origin/'' @ fst p)
                     (filter (\<lambda>p. contains_commit (objects (snd s)) (snd p) k)
                        (tracking (snd s)))), s)"
    using assms by (cases s) (simp add: git_do_def world_def m_branch_contains)
  have img: "localName ` set (map (\<lambda>p. ''origin/'' @ fst p)
                     (filter (\<lambda>p. contains_commit (objects (snd s)) (snd p) k)
                        (tracking (snd s))))
        = fst ` {p \<in> set (tracking (snd s)). contains_commit (objects (snd s)) (snd p) k}"
    by (simp add: image_image)
  have "(b \<in> fst ` {p \<in> set (tracking (snd s)). contains_commit (objects (snd s)) (snd p) k})
        = (\<exists>t. (b, t) \<in> set (tracking (snd s)) \<and> contains_commit (objects (snd s)) t k)"
    by force
  with isBranchStale_cases [of "git_model parse" s b, THEN conjunct1, rule_format, OF br]
  show ?thesis
    unfolding img by simp
qed

lemma rev_parse_after_push:
  assumes "rev_parse w r = Some k"
    and "objects w' = objects w" "tracking w' = put b k (tracking w)"
    "heads w' = put b k (heads w)"
  shows "rev_parse w' r = Some k"
  using assms
  by (auto simp: rev_parse_def map_of_put split: if_splits option.splits)

lemma createBranch_not_stale:
  assumes "createBranch (git_model parse) (Str b) (Str x) s = (Inr (), s')"
    and "baseBranch (config (fst s)) = Str base"
    and "rev_parse (snd s) base = rev_parse (snd s) x"
  shows "isBranchStale (git_model parse) (Str b) s' = (Inr False, s')"
proof -
  from createBranch_model [OF assms(1)] obtain d k c where
    m: "git (fst s) = Some d" "rev_parse (snd s) x = Some k"
      "fst s' = fst s" "copy_dir (snd s') = Some d" "objects (snd s') = objects (snd s)"
      "tracking (snd s') = put b k (tracking (snd s))"
      "heads (snd s') = put b k (heads (snd s))"
    by metis
  from assms(3) m(2) have "rev_parse (snd s) base = Some k" by simp
  from rev_parse_after_push [OF this m(5,6,7)] have rp: "rev_parse (snd s') base = Some k" .
  have "(b, k) \<in> set (tracking (snd s'))"
    by (simp add: m(6) put_def)
  moreover have "contains_commit (objects (snd s')) k k"
    by (simp add: contains_commit_def reach_refl)
  ultimately show ?thesis
    using isBranchStale_model [of s' d base k parse b] m(1,3,4) assms(2) rp by auto
qed

subsection \<open>Committing files, on the reference world\<close>

lemma writeFiles_model:
  "writeFiles (git_model parse) fs (st, w) = (Inr (), s')
     \<Longrightarrow> s' = (st, w\<lparr>fs_files := written_files st fs (fs_files w)\<rparr>)"
proof (induction fs arbitrary: w)
  case Nil
  then show ?case by (simp add: io_return_def written_files_def)
next
  case (Cons f fs)
  from Cons.prems obtain p where p: "m_join [repoDir st, Str (file_name f)] = Inr p"
    and rest: "writeFiles (git_model parse) fs (st, w\<lparr>fs_files := put p (file_contents f) (fs_files w)\<rparr>)
                 = (Inr (), s')"
    by (auto simp: writeFile_def io_defs m_writeFile_def split: sum.splits if_splits)
  from Cons.IH [OF rest] p show ?case
    by (simp add: written_files_def)
qed

lemma written_files_override:
  "\<exists>g. \<forall>F. map_of (written_files st fs F) = map_of F ++ g"
proof (induction fs)
  case Nil
  have "\<forall>F. map_of (written_files st [] F) = map_of F ++ Map.empty"
    by (simp add: written_files_def)
  then show ?case by blast
next
  case (Cons f fs)
  then obtain g where g: "\<And>F. map_of (written_files st fs F) = map_of F ++ g" by blast
  show ?case
  proof (cases "m_join [repoDir st, Str (file_name f)]")
    case (Inl e)
    then have "\<forall>F. map_of (written_files st (f # fs) F) = map_of F ++ g"
      using g by (simp add: written_files_def)
    then show ?thesis by blast
  next
    case (Inr p)
    then have "\<forall>F. map_of (written_files st (f # fs) F) = map_of F ++ ([p \<mapsto> file_contents f] ++ g)"
      using g by (simp add: written_files_def map_of_put)
    then show ?thesis by blast
  qed
qed

lemma add_paths_lookup:
  "add_paths d F ns idx = Some r \<Longrightarrow> n \<in> set ns \<Longrightarrow> map_of F (in_dir d n) \<noteq> None"
  by (induction ns arbitrary: idx) (auto split: option.splits)

lemma add_paths_keys_idx:
  "add_paths d F ns idx = Some r \<Longrightarrow> fst ` set idx \<subseteq> fst ` set r"
proof (induction ns arbitrary: idx)
  case Nil
  then show ?case by simp
next
  case (Cons n ns)
  then obtain c where r: "add_paths d F ns (put n c idx) = Some r"
    by (auto split: option.splits)
  have "fst ` set idx \<subseteq> fst ` set (put n c idx)"
    by (auto simp: put_def image_iff)
  with Cons.IH [OF r] show ?case by blast
qed

lemma add_paths_keys:
  "add_paths d F ns idx = Some r \<Longrightarrow> set ns \<subseteq> fst ` set r"
proof (induction ns arbitrary: idx)
  case Nil
  then show ?case by simp
next
  case (Cons n ns)
  then obtain c where r: "add_paths d F ns (put n c idx) = Some r"
    by (auto split: option.splits)
  have "n \<in> fst ` set (put n c idx)" by (simp add: put_def)
  with add_paths_keys_idx [OF r] Cons.IH [OF r] show ?case by auto
qed

lemma add_paths_agree:
  "\<forall>n \<in> set ns. map_of F1 (in_dir d n) = map_of F2 (in_dir d n)
     \<Longrightarrow> add_paths d F1 ns idx = add_paths d F2 ns idx"
  by (induction ns arbitrary: idx) (auto split: option.splits)

lemma in_dir_inj: "in_dir d p = in_dir d q \<longleftrightarrow> p = q"
  by (simp add: in_dir_def)

lemma map_of_in_dir:
  "map_of (map (\<lambda>p. (in_dir d (fst p), snd p)) al) (in_dir d n) = map_of al n"
  by (induction al) (auto simp: in_dir_inj)

lemma map_of_in_dir_None:
  "y \<notin> in_dir d ` fst ` set al \<Longrightarrow> map_of (map (\<lambda>p. (in_dir d (fst p), snd p)) al) y = None"
  by (induction al) auto

lemma map_of_filter_key:
  "map_of (filter (\<lambda>q. Q (fst q)) al) x = (if Q x then map_of al x else None)"
  by (induction al) auto

lemma checkout_files_lookup:
  "map_of (checkout_files d old new X) (in_dir d n) =
     (case map_of new n of
        Some c \<Rightarrow> Some c
      | None \<Rightarrow> (if n \<in> fst ` set old then None else map_of X (in_dir d n)))"
proof -
  have q: "(in_dir d n \<notin> set (map (\<lambda>p. in_dir d (fst p)) (old @ new)))
            = (n \<notin> fst ` set old \<and> n \<notin> fst ` set new)"
    by (auto simp: in_dir_inj image_iff)
  have "map_of (checkout_files d old new X) (in_dir d n) =
          (case map_of new n of
             Some c \<Rightarrow> Some c
           | None \<Rightarrow> map_of (filter (\<lambda>q. fst q \<notin> set (map (\<lambda>p. in_dir d (fst p)) (old @ new))) X)
                       (in_dir d n))"
    by (simp add: checkout_files_def map_add_def map_of_in_dir split: option.splits)
  also have "\<dots> = (case map_of new n of
        Some c \<Rightarrow> Some c
      | None \<Rightarrow> (if n \<in> fst ` set old then None else map_of X (in_dir d n)))"
    unfolding map_of_filter_key [of "\<lambda>y. y \<notin> set (map (\<lambda>p. in_dir d (fst p)) (old @ new))"] q
    by (auto split: option.splits simp: map_of_eq_None_iff)
  finally show ?thesis .
qed


lemma length_le_longest:
  "(k, v) \<in> set objs \<Longrightarrow> length k \<le> foldr (\<lambda>p m. max (length (fst p)) m) objs 0"
  by (induction objs) auto

lemma fresh_id_new: "map_of objs (fresh_id objs) = None"
proof -
  have "fresh_id objs \<notin> fst ` set objs"
  proof
    assume "fresh_id objs \<in> fst ` set objs"
    then obtain v where "(fresh_id objs, v) \<in> set objs" by auto
    from length_le_longest [OF this] show False
      by (simp add: fresh_id_def)
  qed
  then show ?thesis by (simp add: map_of_eq_None_iff)
qed

lemma commitFilesToBranch_model:
  assumes "commitFilesToBranch (git_model parse) (Str b) fs (Str msg) parent s = (Inr (), s')"
  obtains d c0 k ck idx where
    "git (fst s) = Some d" "copy_dir (snd s) = Some d"
    "head_commit (snd s) = Some c0"
    "map_of (tracking (snd s))
       (to_str (if parent = Undefined then baseBranch (config (fst s)) else parent)) = Some k"
    "map_of (objects (snd s)) k = Some ck"
    "add_paths d
       (written_files (fst s) fs
          (checkout_files d (tree c0) (tree ck)
             (checkout_files d (index (snd s)) (tree c0) (fs_files (snd s)))))
       (map file_name fs) (tree ck) = Some idx"
    "fst s' = fst s" "copy_dir (snd s') = Some d"
    "index (snd s') = idx" "HEAD (snd s') = Some b"
    "heads (snd s') = put b (fresh_id (objects (snd s))) (heads (snd s))"
    "tracking (snd s') = put b (fresh_id (objects (snd s))) (tracking (snd s))"
    "remote_heads (snd s') = put b (fresh_id (objects (snd s))) (remote_heads (snd s))"
    "objects (snd s') =
       (fresh_id (objects (snd s)),
        \<lparr>parents = [k], tree = idx, subject = msg, author_date = clock_ai (snd s)\<rparr>)
       # objects (snd s)"
proof -
  obtain st w where s: "s = (st, w)" by (cases s)
  define p where "p = to_str (if parent = Undefined then baseBranch (config st) else parent)"
  define rest :: "(unit, storage \<times> world) io" where "rest =
    io_then (git_do (\<lambda>d. git_reset (git_model parse) d (Str ''hard'')))
    (io_then (git_do (\<lambda>d. git_checkout (git_model parse) d
                 [Str ''-B'', Str b, Str (''origin/'' @ p)]))
    (io_then (writeFiles (git_model parse) fs)
    (io_then (git_do (\<lambda>d. git_add (git_model parse) d (map (\<lambda>f. Str (file_name f)) fs)))
    (io_then (git_do (\<lambda>d. git_commit (git_model parse) d (Str msg)))
    (git_do (\<lambda>d. git_push (git_model parse) d [Str ''origin'', Str b, Str ''--force'']))))))"
  have "commitFilesToBranch (git_model parse) (Str b) fs (Str msg) parent (st, w) = rest (st, w)"
    unfolding commitFilesToBranch_def rest_def p_def
    by (cases "parent = Undefined")
       (simp_all add: io_bind_def io_return_def io_gets_def get_baseBranch_def)
  with assms have run: "rest (st, w) = (Inr (), s')"
    by (simp add: s)
  from run obtain sa sb sc sd se where
    a: "git_do (\<lambda>d. m_reset d (Str ''hard'')) (st, w) = (Inr (), sa)"
    and b: "git_do (\<lambda>d. m_checkout d [Str ''-B'', Str b, Str (''origin/'' @ p)]) sa = (Inr (), sb)"
    and c: "writeFiles (git_model parse) fs sb = (Inr (), sc)"
    and d: "git_do (\<lambda>d. m_add d (map (\<lambda>f. Str (file_name f)) fs)) sc = (Inr (), sd)"
    and e: "git_do (\<lambda>d. m_commit d (Str msg)) sd = (Inr (), se)"
    and f: "git_do (\<lambda>d. m_push d [Str ''origin'', Str b, Str ''--force'']) se = (Inr (), s')"
    unfolding rest_def by (elim io_thenE) simp
  from a obtain dir where dir: "git st = Some dir"
    by (auto simp: git_do_def split: option.splits)
  from a dir have cd: "copy_dir w = Some dir"
    by (auto simp: git_do_def world_def m_reset_hard failed_def split: if_splits)
  from a dir cd obtain c0 where hc: "head_commit w = Some c0"
    by (auto simp: git_do_def world_def m_reset_hard failed_def split: option.splits)
  define wa where "wa = w\<lparr>index := tree c0,
                          fs_files := checkout_files dir (index w) (tree c0) (fs_files w)\<rparr>"
  from a dir cd hc have sa: "sa = (st, wa)"
    by (simp add: git_do_def world_def m_reset_hard wa_def)
  have wa: "copy_dir wa = Some dir" "objects wa = objects w" "tracking wa = tracking w"
    "heads wa = heads w" "index wa = tree c0"
    by (simp_all add: wa_def cd)
  have rpa: "rev_parse wa (''origin/'' @ p) = rev_parse w (''origin/'' @ p)"
    by (rule rev_parse_cong) (simp_all add: wa)
  from b dir obtain k ck where k: "rev_parse w (''origin/'' @ p) = Some k"
    and ck: "map_of (objects w) k = Some ck"
    unfolding sa
    by (auto simp: git_do_def world_def m_checkout_B failed_def rpa [simplified] wa
        split: option.splits)
  from k have tk: "map_of (tracking w) p = Some k"
    by (auto simp: rev_parse_origin_cons split: option.splits if_splits)
  define wb where "wb = wa\<lparr>heads := put b k (heads wa), HEAD := Some b, index := tree ck,
            fs_files := checkout_files dir (index wa) (tree ck) (fs_files wa)\<rparr>"
  from b dir k ck have sb: "sb = (st, wb)"
    unfolding sa
    by (simp add: git_do_def world_def m_checkout_B rpa [simplified] k [simplified] wa wb_def)
  define wc where "wc = wb\<lparr>fs_files := written_files st fs (fs_files wb)\<rparr>"
  from writeFiles_model [OF c [unfolded sb]] have sc: "sc = (st, wc)"
    by (simp add: wc_def)
  have wc: "copy_dir wc = Some dir" "index wc = tree ck" "HEAD wc = Some b"
    "map_of (heads wc) b = Some k" "objects wc = objects w"
    by (simp_all add: wc_def wb_def wa map_of_put)
  have strs_names: "strs (map (\<lambda>f. Str (file_name f)) fs) = Some (map file_name fs)"
    by (induction fs) simp_all
  from d dir obtain idx where
    idx: "add_paths dir (fs_files wc) (map file_name fs) (tree ck) = Some idx"
    unfolding sc
    by (auto simp: git_do_def world_def m_add_def failed_def wc strs_names
        split: option.splits if_splits)
  from d dir idx have sd: "sd = (st, wc\<lparr>index := idx\<rparr>)"
    unfolding sc by (simp add: git_do_def world_def m_add_def wc strs_names)
  define new where "new = fresh_id (objects w)"
  define we where "we = wc\<lparr>index := idx,
      objects := (new, \<lparr>parents = [k], tree = idx, subject = msg, author_date = clock_ai wc\<rparr>)
                  # objects wc,
      heads := put b new (heads wc)\<rparr>"
  from e dir have se: "se = (st, we)"
    unfolding sd by (simp add: git_do_def world_def m_commit_def wc we_def new_def)
  from f dir have s': "s' = (st, we\<lparr>remote_heads := put b new (remote_heads we),
                                     tracking := put b new (tracking we)\<rparr>)"
    unfolding se by (simp add: git_do_def world_def m_push_force wc we_def map_of_put)
  have put2: "put b x (put b y al) = put b x al" for x y and al :: "(string \<times> string) list"
    by (simp add: put_def)
  show ?thesis
  proof (rule that [of dir c0 k ck idx])
    show "add_paths dir
       (written_files (fst s) fs
          (checkout_files dir (tree c0) (tree ck)
             (checkout_files dir (index (snd s)) (tree c0) (fs_files (snd s)))))
       (map file_name fs) (tree ck) = Some idx"
      using idx by (simp add: s wc_def wb_def wa_def)
    show "heads (snd s') = put b (fresh_id (objects (snd s))) (heads (snd s))"
      by (simp add: s s' we_def wc_def wb_def wa_def new_def put2)
    show "map_of (tracking (snd s))
       (to_str (if parent = Undefined then baseBranch (config (fst s)) else parent)) = Some k"
      using tk unfolding p_def s by (simp split: if_splits)
  qed (simp_all add: s s' dir cd hc ck we_def wc_def wb_def wa_def new_def)
qed


lemma written_lookup_agree:
  assumes "map_of (written_files st fs F1) x = Some a" "map_of (written_files st fs F2) x = Some b"
    and "map_of F1 x \<noteq> None \<Longrightarrow> map_of F2 x \<noteq> None \<Longrightarrow> map_of F1 x = map_of F2 x"
  shows "a = b"
proof -
  from written_files_override [of st fs] obtain g
    where g: "\<And>F. map_of (written_files st fs F) = map_of F ++ g" by blast
  show ?thesis
  proof (cases "g x")
    case None
    with assms(1,2) g have "map_of F1 x = Some a" "map_of F2 x = Some b"
      by (simp_all add: map_add_def)
    with assms(3) show ?thesis by simp
  next
    case (Some c)
    with assms(1,2) g show ?thesis by (simp add: map_add_def)
  qed
qed

subsection \<open>A base branch that moves on, on the reference world\<close>

lemma closed_store_parents:
  assumes "closed_store objs" "map_of objs s = Some c" "p \<in> set (parents c)"
  shows "map_of objs p \<noteq> None"
proof -
  from assms(2) have "(s, c) \<in> set objs" by (rule map_of_SomeD)
  with assms(1,3) show ?thesis
    unfolding closed_store_def list_all_iff by fastforce
qed

lemma reach_new_commit:
  assumes "closed_store objs" "map_of objs new = None"
  shows "map_of objs s \<noteq> None \<Longrightarrow> \<not> reach ((new, c) # objs) n s new"
proof (induction n arbitrary: s)
  case 0
  with assms(2) show ?case by auto
next
  case (Suc n)
  from Suc.prems assms(2) have ne: "s \<noteq> new" by auto
  from Suc.prems obtain cs where cs: "map_of objs s = Some cs" by auto
  have "\<not> reach ((new, c) # objs) n p new" if "p \<in> set (parents cs)" for p
    using Suc.IH [OF closed_store_parents [OF assms(1) cs that]] .
  with ne cs show ?case
    by (auto simp: list_ex_iff)
qed

lemma advance_makes_stale:
  assumes create: "createBranch (git_model parse) (Str b) (Str x) s0 = (Inr (), s1)"
    and advance: "commitFilesToBranch (git_model parse) (Str base) fs (Str msg) parent s1
                    = (Inr (), s2)"
    and base: "baseBranch (config (fst s0)) = Str base"
    and other: "b \<noteq> base"
    and plain: "\<not> starts_with base ''origin/''" "map_of (objects (snd s0)) base = None"
    and closed: "closed_store (objects (snd s0))"
  shows "isBranchStale (git_model parse) (Str b) s2 = (Inr True, s2)"
  using create
proof (cases rule: createBranch_model)
  case (1 d k c)
  note A = 1
  from advance show ?thesis
  proof (cases rule: commitFilesToBranch_model)
    case (1 d' c0 k' ck idx)
    note B = 1
    let ?new = "fresh_id (objects (snd s0))"
    have new: "map_of (objects (snd s0)) ?new = None"
      by (rule fresh_id_new)
    have objs: "objects (snd s2) =
        (?new, \<lparr>parents = [k'], tree = idx, subject = msg, author_date = clock_ai (snd s1)\<rparr>)
        # objects (snd s0)"
      using B(14) A(7) by simp
    have trk: "tracking (snd s2) = put base ?new (put b k (tracking (snd s0)))"
      using B(12) A(7,8) by simp
    have hds: "map_of (heads (snd s2)) base = Some ?new"
      using B(11) A(7) by (simp add: map_of_put)
    have rp: "rev_parse (snd s2) base = Some ?new"
      using plain hds by (auto simp: rev_parse_def objs)
    have g: "git (fst s2) = Some d'" "copy_dir (snd s2) = Some d'"
      "baseBranch (config (fst s2)) = Str base"
      using B(1,7,8) A(5) base by simp_all
    have "\<not> contains_commit (objects (snd s2)) t ?new"
      if "(b, t) \<in> set (tracking (snd s2))" for t
    proof -
      from that other have "t = k"
        by (auto simp: trk put_def)
      have "map_of (objects (snd s0)) k \<noteq> None"
        using A(4) by simp
      from reach_new_commit [OF closed new this]
      have "\<not> reach (objects (snd s2)) (length (objects (snd s2))) k ?new"
        unfolding objs .
      with \<open>t = k\<close> show ?thesis
        by (simp add: contains_commit_def)
    qed
    with isBranchStale_model [OF g rp, of parse b] show ?thesis by simp
  qed
qed

section \<open>Reading files\<close>





section \<open>Listing files\<close>

lemma js_split_nonempty: "js_split sep s \<noteq> []"
  by (induction s) (auto split: list.splits)

lemma js_split_line: "sep \<notin> set p \<Longrightarrow> js_split sep (p @ sep # rest) = p # js_split sep rest"
  by (induction p) (auto split: list.splits simp: js_split_nonempty)

lemma split_listing:
  assumes "\<forall>p \<in> set ps. p \<noteq> [] \<and> nl \<notin> set p"
  shows "filter_Boolean (js_split nl (concat (map (\<lambda>p. p @ [nl]) ps))) = ps"
  using assms by (induction ps) (auto simp: filter_Boolean_def js_split_line)

text \<open>
  Claim C6. \<open>getFileList(branchName)\<close>, on the branch given or else the base branch:
  when \<open>branchExists\<close> denies the branch the result is the empty list, without error;
  otherwise the engine is asked for \<open>ls-tree -r --name-only origin/<branch>\<close> and the
  result is its output split at newlines, the empty entries dropped: when the output is a
  newline-terminated listing of paths, exactly these paths. A failure of \<open>ls-tree\<close>
  is passed on. No entry of a result is empty.
\<close>

theorem getFileList_total:
  "(fst (branchExists E (js_or b (baseBranch (config (fst s)))) s) = Inr False \<longrightarrow>
      getFileList E b s = (Inr [], snd (branchExists E (js_or b (baseBranch (config (fst s)))) s))) \<and>
   (\<forall>s1 out s2.
      branchExists E (js_or b (baseBranch (config (fst s)))) s = (Inr True, s1) \<and>
      git_do (\<lambda>d. git_raw E d [Str ''ls-tree'', Str ''-r'', Str ''--name-only'',
                Str (''origin/'' @ to_str (js_or b (baseBranch (config (fst s)))))]) s1
        = (Inr out, s2)
      \<longrightarrow> getFileList E b s = (Inr (filter (\<lambda>l. l \<noteq> []) (js_split nl out)), s2) \<and>
          (\<forall>ps. (\<forall>p \<in> set ps. p \<noteq> [] \<and> nl \<notin> set p) \<and> out = concat (map (\<lambda>p. p @ [nl]) ps)
             \<longrightarrow> getFileList E b s = (Inr ps, s2))) \<and>
   (\<forall>s1 e s2.
      branchExists E (js_or b (baseBranch (config (fst s)))) s = (Inr True, s1) \<and>
      git_do (\<lambda>d. git_raw E d [Str ''ls-tree'', Str ''-r'', Str ''--name-only'',
                Str (''origin/'' @ to_str (js_or b (baseBranch (config (fst s)))))]) s1
        = (Inl e, s2)
      \<longrightarrow> getFileList E b s = (Inl e, s2)) \<and>
   (\<forall>r. fst (getFileList E b s) = Inr r \<longrightarrow> [] \<notin> set r)"
proof -
  let ?br = "js_or b (baseBranch (config (fst s)))"
  have ex: "\<exists>r. fst (branchExists E ?br s) = Inr r"
    by (auto simp: branchExists_def io_defs split: prod.splits sum.splits option.splits)
  have unf: "getFileList E b s =
     (case branchExists E ?br s of
        (Inl e, s1) \<Rightarrow> (Inl e, s1)
      | (Inr False, s1) \<Rightarrow> (Inr [], s1)
      | (Inr True, s1) \<Rightarrow>
          (case git_do (\<lambda>d. git_raw E d [Str ''ls-tree'', Str ''-r'', Str ''--name-only'',
                  Str (''origin/'' @ to_str ?br)]) s1 of
             (Inl e, s2) \<Rightarrow> (Inl e, s2)
           | (Inr out, s2) \<Rightarrow> (Inr (filter_Boolean (js_split nl out)), s2)))"
    by (auto simp: getFileList_def Let_def io_bind_def io_return_def io_gets_def get_baseBranch_def
        split: prod.splits sum.splits bool.splits)
  have c1: "getFileList E b s = (Inr [], snd (branchExists E ?br s))"
    if "fst (branchExists E ?br s) = Inr False"
    using that unfolding unf by (cases "branchExists E ?br s") auto
  have c2: "getFileList E b s = (Inr (filter (\<lambda>l. l \<noteq> []) (js_split nl out)), s2) \<and>
          (\<forall>ps. (\<forall>p \<in> set ps. p \<noteq> [] \<and> nl \<notin> set p) \<and> out = concat (map (\<lambda>p. p @ [nl]) ps)
             \<longrightarrow> getFileList E b s = (Inr ps, s2))"
    if "branchExists E ?br s = (Inr True, s1) \<and>
      git_do (\<lambda>d. git_raw E d [Str ''ls-tree'', Str ''-r'', Str ''--name-only'',
                Str (''origin/'' @ to_str ?br)]) s1 = (Inr out, s2)" for s1 out s2
    using that split_listing unfolding unf by (auto simp: filter_Boolean_def)
  have c3: "getFileList E b s = (Inl e, s2)"
    if "branchExists E ?br s = (Inr True, s1) \<and>
      git_do (\<lambda>d. git_raw E d [Str ''ls-tree'', Str ''-r'', Str ''--name-only'',
                Str (''origin/'' @ to_str ?br)]) s1 = (Inl e, s2)" for s1 e s2
    using that unfolding unf by auto
  have c4: "[] \<notin> set r" if "fst (getFileList E b s) = Inr r" for r
    using that unfolding unf
    by (auto simp: filter_Boolean_def split: prod.splits sum.splits bool.splits)
  from c1 c2 c3 c4 show ?thesis by blast
qed


theorem getFileList_total_witness:
  "getFileList (git_model demo_parse) Undefined demo_session
     = (Inr [''package.json'', ''README.md''], demo_session) \<and>
   getFileList (git_model demo_parse) (Str ''gone'') demo_session = (Inr [], demo_session)"
proof -
  let ?E = "git_model demo_parse"
  have be: "branchExists ?E (js_or Undefined (baseBranch (config (fst demo_session))))
              demo_session = (Inr True, demo_session)"
    by (simp add: branchExists_model_s js_or_def demo_rev_commit demo_objects_def)
  have ls: "git_do (\<lambda>d. git_raw ?E d [Str ''ls-tree'', Str ''-r'', Str ''--name-only'',
                Str (''origin/'' @ to_str (js_or Undefined
                       (baseBranch (config (fst demo_session)))))]) demo_session
            = (Inr (concat (map (\<lambda>p. p @ [nl]) [''package.json'', ''README.md''])),
               demo_session)"
    by (simp add: git_do_def world_def m_raw_def js_or_def demo_rev_commit demo_objects_def)
  have ok: "\<forall>p \<in> set [''package.json'', ''README.md'']. p \<noteq> [] \<and> nl \<notin> set p"
    by (simp add: nl_def)
  have a: "getFileList ?E Undefined demo_session
             = (Inr [''package.json'', ''README.md''], demo_session)"
    using be ls ok
      getFileList_total [of ?E Undefined demo_session, THEN conjunct2, THEN conjunct1,
        rule_format, of demo_session
          "concat (map (\<lambda>p. p @ [nl]) [''package.json'', ''README.md''])" demo_session,
        THEN conjunct2, rule_format, of "[''package.json'', ''README.md'']"]
    by blast
  have be2: "fst (branchExists ?E (js_or (Str ''gone'') (baseBranch (config (fst demo_session))))
              demo_session) = Inr False"
    by (simp add: branchExists_model_s js_or_def demo_rev_commit)
  have b: "getFileList ?E (Str ''gone'') demo_session = (Inr [], demo_session)"
    using be2 getFileList_total [of ?E "Str ''gone''" demo_session, THEN conjunct1]
    by (simp add: branchExists_model_s)
  from a b show ?thesis by blast
qed

subsection \<open>The concrete repository after further calls\<close>

lemmas demo_eval = io_defs m_reset_hard m_checkout_B m_push_force head_commit_def rev_parse_def
  rev_commit_def checkout_files_def in_dir_def put_def del_def starts_with_def failed_def
  demo_session_def demo_storage_def demo_copy_def demo_remote_def demo_objects_def demo_dir_def
  demo_args_def demo_files_def m_add_def m_commit_def m_writeFile_def m_join_def fresh_id_def
  writeFile_def m_raw_push_delete m_deleteLocalBranch_def

lemma demo_created_eq:
  "createBranch (git_model demo_parse) (Str ''renovate/a'') (Str ''b2'') demo_session
     = (Inr (), demo_created)"
  unfolding demo_created_def
  by (simp add: createBranch_def demo_eval)

lemma demo_created_simps:
  "fst demo_created = demo_storage"
  "copy_dir (snd demo_created) = Some demo_dir"
  "objects (snd demo_created) = demo_objects"
  "tracking (snd demo_created) = [(''renovate/a'', ''b2''), (''master'', ''b2''), (''feature/x'', ''a1'')]"
  "heads (snd demo_created) = [(''renovate/a'', ''b2''), (''master'', ''b2'')]"
  unfolding demo_created_def
  by (simp_all add: createBranch_def demo_eval)

lemma demo_once_eq:
  "commitFilesToBranch (git_model demo_parse) (Str ''renovate/a'') demo_files
     (Str ''Update package.json'') Undefined demo_session = (Inr (), demo_once)"
  unfolding demo_once_def
  by (simp add: commitFilesToBranch_def demo_eval)

lemma demo_once_simps:
  "fst demo_once = demo_storage"
  "tracking (snd demo_once) = [(''renovate/a'', ''000''), (''master'', ''b2''), (''feature/x'', ''a1'')]"
  "remote_tree (snd demo_once) ''renovate/a'' = Some [(''package.json'', ''new''), (''README.md'', ''hello'')]"
  unfolding demo_once_def
  by (simp_all add: commitFilesToBranch_def demo_eval remote_tree_def)

lemma demo_twice_eq:
  "commitFilesToBranch (git_model demo_parse) (Str ''renovate/a'') demo_files
     (Str ''Update package.json'') Undefined demo_once = (Inr (), demo_twice)"
  unfolding demo_twice_def demo_once_def
  by (simp add: commitFilesToBranch_def demo_eval)

lemma demo_deleted_eq:
  "deleteBranch (git_model demo_parse) (Str ''feature/x'') demo_session = (Inr (), demo_deleted)"
  unfolding demo_deleted_def
  by (simp add: deleteBranch_def demo_eval)

section \<open>Deleting a branch\<close>

text \<open>
  Claim C7. \<open>deleteBranch(b)\<close> first asks the engine to delete the branch on the remote
  (\<open>push --delete origin b\<close>); a failure of that call is passed on and the local branch is
  not touched. It then asks for the local branch to be deleted and returns normally whether
  or not that call fails. On the reference world, once \<open>deleteBranch(b)\<close> has returned,
  \<open>branchExists(b)\<close> is false.
\<close>

theorem deleteBranch_remote_then_local:
  "(\<forall>e s1. git_do (\<lambda>d. git_raw E d [Str ''push'', Str ''--delete'', Str ''origin'', b]) s
               = (Inl e, s1)
       \<longrightarrow> deleteBranch E b s = (Inl e, s1)) \<and>
   (\<forall>out s1. git_do (\<lambda>d. git_raw E d [Str ''push'', Str ''--delete'', Str ''origin'', b]) s
               = (Inr out, s1)
       \<longrightarrow> deleteBranch E b s = (Inr (), snd (git_do (\<lambda>d. git_deleteLocalBranch E d b) s1))) \<and>
   (\<forall>parse name s0 s'. deleteBranch (git_model parse) (Str name) s0 = (Inr (), s')
       \<longrightarrow> branchExists (git_model parse) (Str name) s' = (Inr False, s'))"
  using deleteBranch_cases [of E b s] deleteBranch_then_branchExists by blast

theorem deleteBranch_remote_then_local_witness:
  "map_of (heads (snd demo_session)) ''feature/x'' = None \<and>
   branchExists (git_model demo_parse) (Str ''feature/x'') demo_session = (Inr True, demo_session) \<and>
   deleteBranch (git_model demo_parse) (Str ''feature/x'') demo_session = (Inr (), demo_deleted) \<and>
   branchExists (git_model demo_parse) (Str ''feature/x'') demo_deleted = (Inr False, demo_deleted)"
proof -
  have a: "map_of (heads (snd demo_session)) ''feature/x'' = None"
    by simp
  have b: "branchExists (git_model demo_parse) (Str ''feature/x'') demo_session
             = (Inr True, demo_session)"
    by (simp add: branchExists_model_s demo_rev_commit demo_objects_def)
  from deleteBranch_remote_then_local [of "git_model demo_parse" "Str ''feature/x''" demo_session,
      THEN conjunct2, THEN conjunct2, rule_format, OF demo_deleted_eq]
  have "branchExists (git_model demo_parse) (Str ''feature/x'') demo_deleted
          = (Inr False, demo_deleted)" .
  with a b demo_deleted_eq show ?thesis by blast
qed

section \<open>Creating a branch\<close>

text \<open>
  Claim C2. On the reference world: when \<open>sha\<close> is the identifier of a commit of the
  working copy and \<open>createBranch(b, sha)\<close> has completed, \<open>getBranchCommit(b)\<close>
  returns \<open>sha\<close>.
\<close>

theorem createBranch_getBranchCommit:
  assumes "createBranch (git_model parse) (Str b) (Str sha) s = (Inr (), s')"
    and "is_sha sha" and "map_of (objects (snd s)) sha \<noteq> None"
  shows "getBranchCommit (git_model parse) (Str b) s' = (Inr sha, s')"
proof -
  from assms(3) obtain c0 where c0: "map_of (objects (snd s)) sha = Some c0" by blast
  from createBranch_model [OF assms(1)] obtain d k c where
    m: "git (fst s) = Some d" "rev_parse (snd s) sha = Some k"
      "fst s' = fst s" "copy_dir (snd s') = Some d" "objects (snd s') = objects (snd s)"
      "tracking (snd s') = put b k (tracking (snd s))"
    by metis
  from m(2) is_sha_rev_parse [OF assms(2) c0] have k: "k = sha" by simp
  have "rev_parse (snd s') (''origin/'' @ b) = Some sha"
    by (simp add: rev_parse_origin_cons m k map_of_put c0)
  from getBranchCommit_model [OF _ m(4) this, of parse] m(1,3)
  show ?thesis by (simp add: js_trim_sha [OF assms(2)])
qed

theorem createBranch_getBranchCommit_witness:
  "is_sha ''b2'' \<and> map_of (objects (snd demo_session)) ''b2'' \<noteq> None \<and>
   createBranch (git_model demo_parse) (Str ''renovate/a'') (Str ''b2'') demo_session
     = (Inr (), demo_created) \<and>
   getBranchCommit (git_model demo_parse) (Str ''renovate/a'') demo_created
     = (Inr ''b2'', demo_created)"
proof -
  have a: "is_sha ''b2''"
    by (simp add: is_sha_def)
  have b: "map_of (objects (snd demo_session)) ''b2'' \<noteq> None"
    by (simp add: demo_objects_def)
  from createBranch_getBranchCommit [OF demo_created_eq a b] a b demo_created_eq
  show ?thesis by blast
qed

section \<open>Stale branches\<close>

text \<open>
  \<open>isBranchStale\<close> hands the bare name of the base branch to \<open>--contains\<close>, where every
  other query of the storage names \<open>origin/<branch>\<close>. The engine therefore answers for the
  local branch of that name (\<open>isBranchStale_model\<close>), which neither a fetch nor
  \<open>setBaseBranch\<close> moves or creates. The lemmas \<open>createBranch_not_stale\<close> and
  \<open>advance_makes_stale\<close> above hold because there the local branch is at the tip of the
  base branch.
\<close>

lemma demo_refreshed_eq:
  "initRepo (git_model demo_parse) demo_args demo_moved = (Inr (), demo_refreshed)"
  unfolding demo_refreshed_def demo_moved_def demo_created_def
  by (simp add: initRepo_def cleanRepo_def initRepo_fetch_def initRepo_author_def
      initRepo_baseBranch_def createBranch_def demo_eval m_env_def m_exists_def m_fetch_def
      m_raw_def js_or_def)

lemma demo_refreshed_simps:
  "git (fst demo_refreshed) = Some demo_dir"
  "copy_dir (snd demo_refreshed) = Some demo_dir"
  "baseBranch (config (fst demo_refreshed)) = Str ''master''"
  "tracking (snd demo_refreshed) = [(''master'', ''c3''), (''renovate/a'', ''b2''), (''feature/x'', ''a1'')]"
  "heads (snd demo_refreshed) = [(''renovate/a'', ''b2''), (''master'', ''b2'')]"
  "map (\<lambda>p. (fst p, parents (snd p))) (objects (snd demo_refreshed))
     = [(''c3'', [''b2'']), (''a1'', []), (''b2'', [''a1''])]"
  unfolding demo_refreshed_def demo_moved_def demo_created_def
  by (simp_all add: initRepo_def cleanRepo_def initRepo_fetch_def initRepo_author_def
      initRepo_baseBranch_def createBranch_def demo_eval m_env_def m_exists_def m_fetch_def
      m_raw_def js_or_def js_trim_def is_ws_def nl_def)

lemma demo_feature_base_eq:
  "createBranch (git_model demo_parse) (Str ''renovate/b'') (Str ''a1'')
     (snd (setBaseBranch (Str ''feature/x'') demo_session)) = (Inr (), demo_feature_base)"
  unfolding demo_feature_base_def
  by (simp add: createBranch_def setBaseBranch_def demo_eval)

text \<open>
  Claim C3. The claim fails on the code. After the base branch \<open>master\<close> has advanced on
  the remote to \<open>c3\<close> and \<open>initRepo\<close> has refreshed the working copy by a fetch,
  \<open>origin/master\<close> is \<open>c3\<close>, the local \<open>master\<close> is still \<open>b2\<close>, and the tip
  \<open>b2\<close> of \<open>origin/renovate/a\<close> does not contain \<open>c3\<close>: the base has advanced past
  the branch, which the claim calls stale, and \<open>isBranchStale\<close> returns false. And with
  the base branch \<open>feature/x\<close>, which has no local branch, \<open>isBranchStale\<close> of a branch
  just created at the tip of \<open>origin/feature/x\<close> fails, where the claim says not stale.
\<close>

theorem isBranchStale_local_base:
  "initRepo (git_model demo_parse) demo_args demo_moved = (Inr (), demo_refreshed) \<and>
   baseBranch (config (fst demo_refreshed)) = Str ''master'' \<and>
   rev_parse (snd demo_refreshed) ''origin/master'' = Some ''c3'' \<and>
   rev_parse (snd demo_refreshed) ''master'' = Some ''b2'' \<and>
   rev_parse (snd demo_refreshed) ''origin/renovate/a'' = Some ''b2'' \<and>
   \<not> contains_commit (objects (snd demo_refreshed)) ''b2'' ''c3'' \<and>
   isBranchStale (git_model demo_parse) (Str ''renovate/a'') demo_refreshed
     = (Inr False, demo_refreshed) \<and>
   createBranch (git_model demo_parse) (Str ''renovate/b'') (Str ''a1'')
     (snd (setBaseBranch (Str ''feature/x'') demo_session)) = (Inr (), demo_feature_base) \<and>
   baseBranch (config (fst demo_feature_base)) = Str ''feature/x'' \<and>
   rev_parse (snd demo_feature_base) ''origin/feature/x''
     = rev_parse (snd demo_feature_base) ''origin/renovate/b'' \<and>
   fst (isBranchStale (git_model demo_parse) (Str ''renovate/b'') demo_feature_base)
     = Inl (Failed ''branch'')"
proof -
  let ?E = "git_model demo_parse"
  have objs: "objects (snd demo_refreshed) =
      (''c3'', \<lparr>parents = [''b2''],
                 tree = [(''package.json'', ''{ }''), (''README.md'', ''hello again'')],
                 subject = ''third'', author_date = ''2018-10-03 08:00:00 +0200''\<rparr>)
      # demo_objects"
    unfolding demo_refreshed_def demo_moved_def demo_created_def
    by (simp add: initRepo_def cleanRepo_def initRepo_fetch_def initRepo_author_def
        initRepo_baseBranch_def createBranch_def demo_eval m_env_def m_exists_def m_fetch_def
        m_raw_def js_or_def)
  have a: "rev_parse (snd demo_refreshed) ''origin/master'' = Some ''c3''"
    "rev_parse (snd demo_refreshed) ''master'' = Some ''b2''"
    "rev_parse (snd demo_refreshed) ''origin/renovate/a'' = Some ''b2''"
    by (simp_all add: rev_parse_def starts_with_def demo_refreshed_simps objs demo_objects_def)
  have b: "\<not> contains_commit (objects (snd demo_refreshed)) ''b2'' ''c3''"
    by (simp add: contains_commit_def objs demo_objects_def)
  have c: "isBranchStale ?E (Str ''renovate/a'') demo_refreshed = (Inr False, demo_refreshed)"
    by (simp add: isBranchStale_def io_defs m_branch_contains demo_refreshed_simps a
        contains_commit_def objs demo_objects_def)
  have d: "baseBranch (config (fst demo_feature_base)) = Str ''feature/x''"
    "rev_parse (snd demo_feature_base) ''origin/feature/x''
       = rev_parse (snd demo_feature_base) ''origin/renovate/b''"
    "fst (isBranchStale ?E (Str ''renovate/b'') demo_feature_base) = Inl (Failed ''branch'')"
    unfolding demo_feature_base_def
    by (simp_all add: createBranch_def setBaseBranch_def isBranchStale_def m_branch_contains
        demo_eval)
  from demo_refreshed_eq demo_refreshed_simps(3) a b c demo_feature_base_eq d
  show ?thesis by blast
qed

section \<open>Committing files\<close>

text \<open>
  Claim C1. On the reference world: when \<open>commitFilesToBranch\<close> is called twice with the
  same branch, files, message and parent branch, both calls complete, and the
  remote-tracking ref of the parent branch is the same before the two calls, then the branch
  of the remote has a tip after each call and the file tree of the tip is the same after both
  (the commits themselves differ).
\<close>

theorem commitFilesToBranch_idempotent:
  assumes first: "commitFilesToBranch (git_model parse) (Str b) fs (Str msg) parent s0 = (Inr (), s1)"
    and second: "commitFilesToBranch (git_model parse) (Str b) fs (Str msg) parent s1 = (Inr (), s2)"
    and unchanged:
      "map_of (tracking (snd s1))
         (to_str (if parent = Undefined then baseBranch (config (fst s0)) else parent))
       = map_of (tracking (snd s0))
         (to_str (if parent = Undefined then baseBranch (config (fst s0)) else parent))"
  shows "remote_tree (snd s2) b = remote_tree (snd s1) b \<and> remote_tree (snd s1) b \<noteq> None"
  using first
proof (cases rule: commitFilesToBranch_model)
  case (1 d c0 k ck idx1)
  note A = 1
  let ?new1 = "fresh_id (objects (snd s0))"
  have new1: "?new1 \<noteq> k"
    using fresh_id_new [of "objects (snd s0)"] A(5) by auto
  have tree1: "remote_tree (snd s1) b = Some idx1"
    by (simp add: remote_tree_def A(13,14) map_of_put)
  have head1: "head_commit (snd s1) =
      Some \<lparr>parents = [k], tree = idx1, subject = msg, author_date = clock_ai (snd s0)\<rparr>"
    by (simp add: head_commit_def A(10,11,14) map_of_put)
  from second show ?thesis
  proof (cases rule: commitFilesToBranch_model)
    case (1 d' c1 k' ck' idx2)
    note B = 1
    have d': "d' = d" using A(1,7) B(1) by simp
    have c1: "tree c1 = idx1" using head1 B(3) by auto
    have k': "k' = k" using B(4) unchanged A(4) unfolding A(7) by simp
    have ck': "ck' = ck" using B(5) A(5,14) new1 k' by simp
    have tree2: "remote_tree (snd s2) b = Some idx2"
      by (simp add: remote_tree_def B(13,14) map_of_put)
    let ?C1 = "checkout_files d (tree c0) (tree ck)
                 (checkout_files d (index (snd s0)) (tree c0) (fs_files (snd s0)))"
    let ?C2 = "checkout_files d idx1 (tree ck)
                 (checkout_files d idx1 idx1 (fs_files (snd s1)))"
    have add1: "add_paths d (written_files (fst s0) fs ?C1) (map file_name fs) (tree ck) = Some idx1"
      by (rule A(6))
    have add2: "add_paths d (written_files (fst s0) fs ?C2) (map file_name fs) (tree ck) = Some idx2"
      using B(6) unfolding d' c1 ck' A(7) A(9) .
    have agree: "map_of (written_files (fst s0) fs ?C1) (in_dir d n)
               = map_of (written_files (fst s0) fs ?C2) (in_dir d n)"
      if n: "n \<in> set (map file_name fs)" for n
    proof -
      from add_paths_lookup [OF add1 n] obtain a
        where a: "map_of (written_files (fst s0) fs ?C1) (in_dir d n) = Some a" by blast
      from add_paths_lookup [OF add2 n] obtain a'
        where a': "map_of (written_files (fst s0) fs ?C2) (in_dir d n) = Some a'" by blast
      from add_paths_keys [OF add1] n have tracked: "n \<in> fst ` set idx1" by blast
      have "map_of ?C1 (in_dir d n) = map_of ?C2 (in_dir d n)"
        if "map_of ?C1 (in_dir d n) \<noteq> None" "map_of ?C2 (in_dir d n) \<noteq> None"
      proof (cases "map_of (tree ck) n")
        case None
        with tracked have "map_of ?C2 (in_dir d n) = None"
          by (simp add: checkout_files_lookup [of d idx1 "tree ck"])
        with that(2) show ?thesis by simp
      next
        case (Some c)
        then show ?thesis
          by (simp add: checkout_files_lookup [of d _ "tree ck"])
      qed
      from written_lookup_agree [OF a a' this] a a' show ?thesis by simp
    qed
    have "add_paths d (written_files (fst s0) fs ?C1) (map file_name fs) (tree ck)
        = add_paths d (written_files (fst s0) fs ?C2) (map file_name fs) (tree ck)"
      by (rule add_paths_agree) (simp add: agree)
    with add1 add2 have "idx1 = idx2" by simp
    with tree1 tree2 show ?thesis by simp
  qed
qed

theorem commitFilesToBranch_idempotent_witness:
  "commitFilesToBranch (git_model demo_parse) (Str ''renovate/a'') demo_files
     (Str ''Update package.json'') Undefined demo_session = (Inr (), demo_once) \<and>
   commitFilesToBranch (git_model demo_parse) (Str ''renovate/a'') demo_files
     (Str ''Update package.json'') Undefined demo_once = (Inr (), demo_twice) \<and>
   map_of (tracking (snd demo_once)) ''master'' = map_of (tracking (snd demo_session)) ''master'' \<and>
   remote_tree (snd demo_twice) ''renovate/a'' = remote_tree (snd demo_once) ''renovate/a'' \<and>
   remote_tree (snd demo_once) ''renovate/a''
     = Some [(''package.json'', ''new''), (''README.md'', ''hello'')]"
proof -
  have u: "map_of (tracking (snd demo_once))
         (to_str (if Undefined = Undefined then baseBranch (config (fst demo_session))
                  else Undefined))
       = map_of (tracking (snd demo_session))
         (to_str (if Undefined = Undefined then baseBranch (config (fst demo_session))
                  else Undefined))"
    by (simp add: demo_once_simps)
  have m: "map_of (tracking (snd demo_once)) ''master''
             = map_of (tracking (snd demo_session)) ''master''"
    by (simp add: demo_once_simps)
  from commitFilesToBranch_idempotent [OF demo_once_eq demo_twice_eq u]
  have "remote_tree (snd demo_twice) ''renovate/a'' = remote_tree (snd demo_once) ''renovate/a''"
    by blast
  with demo_once_eq demo_twice_eq m demo_once_simps(3) show ?thesis by blast
qed

end
